theory Spec2Isabelle
  imports Complex_Main "HOL-Library.Word" "HOL-Library.Sublist"
begin

section \<open>Thrown values, promises and the record of external calls\<close>

text \<open>
  A JavaScript \<^verbatim>\<open>throw\<close> carries either an \<^verbatim>\<open>Error\<close> instance (with its message)
  or any other value (kept as its \<^verbatim>\<open>String(...)\<close> rendering). The expression
  \<^verbatim>\<open>error instanceof Error ? error.message : String(error)\<close> of the sources is
  \<open>error_text\<close>.
\<close>

datatype error = Error string | Thrown string

fun error_text :: "error \<Rightarrow> string" where
  "error_text (Error m) = m"
| "error_text (Thrown s) = s"

text \<open>
  Reading a property of \<^verbatim>\<open>null\<close> or \<^verbatim>\<open>undefined\<close> throws a \<^verbatim>\<open>TypeError\<close>,
  which is an \<^verbatim>\<open>Error\<close> instance; its message names the base value and, in
  single quotes, the property.
\<close>

definition type_error :: "string \<Rightarrow> string \<Rightarrow> error" where
  "type_error base prop =
     Error (''Cannot read properties of '' @ base @ '' (reading '' @ [CHR 0x27] @ prop
            @ [CHR 0x27] @ '')'')"

text \<open>
  Every request that leaves the process is recorded, in order, so that "the backend was
  not called" is a statement about the record.
\<close>

datatype request_body =
    Text2ImageBody string
  | Image2ImageBody string string
  | Text2VideoBody string "string list option" "real option"

datatype call =
    GetPlanBalance string
  | GetAssetDDO string
  | OrderPlan string
  | GetServiceAccessConfig string
  | LibCheckBalance string string
  | LibGetServiceAccess string
  | LibPurchasePlan string
  | Fetch string string request_body
  | AxiosGet string

text \<open>
  An \<^verbatim>\<open>async\<close> function is a computation over the record of calls that either
  rejects (\<open>Inl\<close>) or resolves (\<open>Inr\<close>). \<^verbatim>\<open>console.error\<close> output is not modelled.
\<close>

type_synonym 'a promise = "call list \<Rightarrow> (error + 'a) \<times> call list"

definition resolve :: "'a \<Rightarrow> 'a promise" where
  "resolve x = (\<lambda>l. (Inr x, l))"

definition reject :: "error \<Rightarrow> 'a promise" where
  "reject e = (\<lambda>l. (Inl e, l))"

definition await :: "'a promise \<Rightarrow> ('a \<Rightarrow> 'b promise) \<Rightarrow> 'b promise" where
  "await m f = (\<lambda>l. case m l of (Inl e, l') \<Rightarrow> (Inl e, l') | (Inr x, l') \<Rightarrow> f x l')"

definition try_catch :: "'a promise \<Rightarrow> (error \<Rightarrow> 'a promise) \<Rightarrow> 'a promise" where
  "try_catch m h = (\<lambda>l. case m l of (Inl e, l') \<Rightarrow> h e l' | (Inr x, l') \<Rightarrow> (Inr x, l'))"

definition external :: "call \<Rightarrow> (error + 'a) \<Rightarrow> 'a promise" where
  "external c r = (\<lambda>l. (r, l @ [c]))"

section \<open>Bytes and their base64 rendering\<close>

type_synonym byte = "8 word"

text \<open>
  \<^verbatim>\<open>Buffer.prototype.toString("base64")\<close> is the padded encoding of RFC 4648 over the
  alphabet \<^verbatim>\<open>A-Z a-z 0-9 + /\<close>; \<open>b64_char\<close> is that alphabet, \<open>b64_index\<close> its inverse.
\<close>

definition b64_char :: "nat \<Rightarrow> char" where
  "b64_char i =
     (if i < 26 then char_of (65 + i)
      else if i < 52 then char_of (71 + i)
      else if i < 62 then char_of (i - 4)
      else if i = 62 then CHR ''+''
      else CHR ''/'')"


fun base64_encode :: "byte list \<Rightarrow> string" where
  "base64_encode (a # b # c # rest) =
     [b64_char (unat a div 4),
      b64_char ((unat a mod 4) * 16 + unat b div 16),
      b64_char ((unat b mod 16) * 4 + unat c div 64),
      b64_char (unat c mod 64)] @ base64_encode rest"
| "base64_encode [a, b] =
     [b64_char (unat a div 4),
      b64_char ((unat a mod 4) * 16 + unat b div 16),
      b64_char ((unat b mod 16) * 4),
      CHR ''='']"
| "base64_encode [a] =
     [b64_char (unat a div 4),
      b64_char ((unat a mod 4) * 16),
      CHR ''='', CHR ''='']"
| "base64_encode [] = []"


section \<open>JavaScript values used by the sources\<close>

text \<open>
  A \<^verbatim>\<open>number\<close> is an IEEE double: \<^verbatim>\<open>NaN\<close>, an infinity, or a finite value, kept as
  the real number it denotes (the two zeros are one value, which no comparison and no
  truthiness test tells apart). \<^verbatim>\<open>x >= y\<close> and \<^verbatim>\<open>x > y\<close> on numbers are false as
  soon as one side is \<^verbatim>\<open>NaN\<close>.
\<close>

datatype number = NaN | PosInf | NegInf | Num real

fun number_ge :: "number \<Rightarrow> number \<Rightarrow> bool" where
  "number_ge NaN y = False"
| "number_ge x NaN = False"
| "number_ge PosInf y = True"
| "number_ge x NegInf = True"
| "number_ge NegInf y = False"
| "number_ge x PosInf = False"
| "number_ge (Num a) (Num b) = (b \<le> a)"

fun number_gt :: "number \<Rightarrow> number \<Rightarrow> bool" where
  "number_gt NaN y = False"
| "number_gt x NaN = False"
| "number_gt NegInf y = False"
| "number_gt x PosInf = False"
| "number_gt PosInf y = True"
| "number_gt x NegInf = True"
| "number_gt (Num a) (Num b) = (b < a)"

fun negate :: "number \<Rightarrow> number" where
  "negate NaN = NaN"
| "negate PosInf = NegInf"
| "negate NegInf = PosInf"
| "negate (Num r) = Num (- r)"

definition signed :: "bool \<Rightarrow> number \<Rightarrow> number" where
  "signed neg n = (if neg then negate n else n)"

text \<open>
  The double nearest to a rational, ties to the even mantissa: a positive value is
  scaled so that its mantissa has 53 bits (fewer below the normal range, whose least
  exponent is \<open>- 1074\<close>), rounded, and scaled back; from \<open>2 ^ 1024\<close> on the result is
  infinite. This is the conversion of a BigInt and of a numeric literal to a number.
\<close>

function bit_length :: "int \<Rightarrow> int" where
  "bit_length n = (if n \<le> 0 then 0 else 1 + bit_length (n div 2))"
  by pat_completeness auto

termination
  by (relation "measure nat") auto

declare bit_length.simps [simp del]

definition pow2 :: "int \<Rightarrow> rat" where
  "pow2 k = (if 0 \<le> k then 2 ^ nat k else 1 / 2 ^ nat (- k))"

definition pow10 :: "int \<Rightarrow> rat" where
  "pow10 k = (if 0 \<le> k then 10 ^ nat k else 1 / 10 ^ nat (- k))"

definition floor_log2 :: "rat \<Rightarrow> int" where
  "floor_log2 q =
     (case quotient_of q of
        (p, d) \<Rightarrow>
          let k = bit_length p - bit_length d
          in if pow2 k \<le> q then k else k - 1)"

definition round_half_even :: "rat \<Rightarrow> int" where
  "round_half_even x =
     (let f = \<lfloor>x\<rfloor>; r = x - of_int f
      in if 1 / 2 < r \<or> (r = 1 / 2 \<and> odd f) then f + 1 else f)"

definition round_positive :: "rat \<Rightarrow> number" where
  "round_positive q =
     (let e = max (floor_log2 q - 52) (- 1074);
          v = of_int (round_half_even (q / pow2 e)) * pow2 e
      in if pow2 1024 \<le> v then PosInf else Num (of_rat v))"

definition to_double :: "rat \<Rightarrow> number" where
  "to_double q =
     (if q = 0 then Num 0
      else if 0 < q then round_positive q
      else negate (round_positive (- q)))"

text \<open>A string that may be \<^verbatim>\<open>undefined\<close>: its truthiness, \<^verbatim>\<open>x || d\<close> and \<^verbatim>\<open>${x}\<close>.\<close>

fun truthy :: "string option \<Rightarrow> bool" where
  "truthy None = False"
| "truthy (Some s) = (s \<noteq> [])"

fun or_default :: "string option \<Rightarrow> string \<Rightarrow> string" where
  "or_default None d = d"
| "or_default (Some s) d = (if s = [] then d else s)"

fun template :: "string option \<Rightarrow> string" where
  "template None = ''undefined''"
| "template (Some s) = s"

text \<open>\<^verbatim>\<open>${n}\<close> for a non-negative whole number: its decimal digits.\<close>

fun show_nat :: "nat \<Rightarrow> string" where
  "show_nat n = (if n < 10 then [char_of (48 + n)] else show_nat (n div 10) @ [char_of (48 + n mod 10)])"

declare show_nat.simps [simp del]

text \<open>\<^verbatim>\<open>s.replace(pat, rep)\<close> with a string pattern replaces the first occurrence only.\<close>

fun replace_first :: "string \<Rightarrow> string \<Rightarrow> string \<Rightarrow> string" where
  "replace_first pat rep [] = (if pat = [] then rep else [])"
| "replace_first pat rep (c # cs) =
     (if prefix pat (c # cs) then rep @ drop (length pat) (c # cs)
      else c # replace_first pat rep cs)"

text \<open>
  \<^verbatim>\<open>parseInt(s)\<close> without a radix: leading white space is skipped, a sign is read, a
  \<^verbatim>\<open>0x\<close> prefix selects base 16, and the longest run of digits is the value, as a
  double; \<^verbatim>\<open>NaN\<close> when there is no digit. A string is a list of code units below 256,
  of which tab, the line terminators, space and the no-break space (160) are white
  space.
\<close>

definition is_space :: "char \<Rightarrow> bool" where
  "is_space c = ((of_char c :: nat) \<in> {9, 10, 11, 12, 13, 32, 160})"

definition digit_value :: "char \<Rightarrow> nat option" where
  "digit_value c =
     (let n = (of_char c :: nat) in
      if 48 \<le> n \<and> n \<le> 57 then Some (n - 48)
      else if 97 \<le> n \<and> n \<le> 122 then Some (n - 87)
      else if 65 \<le> n \<and> n \<le> 90 then Some (n - 55)
      else None)"

fun leading_digits :: "nat \<Rightarrow> string \<Rightarrow> nat list" where
  "leading_digits r [] = []"
| "leading_digits r (c # cs) =
     (case digit_value c of
        None \<Rightarrow> []
      | Some d \<Rightarrow> if d < r then d # leading_digits r cs else [])"

definition digits_value :: "nat \<Rightarrow> nat list \<Rightarrow> int" where
  "digits_value r ds = foldl (\<lambda>acc d. acc * int r + int d) 0 ds"

definition strip_sign :: "string \<Rightarrow> bool \<times> string" where
  "strip_sign s =
     (case s of
        [] \<Rightarrow> (False, [])
      | c # cs \<Rightarrow> if c = CHR ''-'' then (True, cs)
                  else if c = CHR ''+'' then (False, cs)
                  else (False, s))"

definition strip_radix :: "string \<Rightarrow> nat \<times> string" where
  "strip_radix s =
     (case s of
        a # b # cs \<Rightarrow> if a = CHR ''0'' \<and> (b = CHR ''x'' \<or> b = CHR ''X'') then (16, cs) else (10, s)
      | _ \<Rightarrow> (10, s))"

definition parseInt :: "string \<Rightarrow> number" where
  "parseInt s =
     (case strip_sign (dropWhile is_space s) of
        (neg, s2) \<Rightarrow>
          (case strip_radix s2 of
             (radix, s3) \<Rightarrow>
               (case leading_digits radix s3 of
                  [] \<Rightarrow> NaN
                | d # ds \<Rightarrow>
                    to_double (of_int ((if neg then - 1 else 1) * digits_value radix (d # ds))))))"

text \<open>
  \<^verbatim>\<open>StringToNumber\<close>, the conversion of a string to a number: white space is trimmed at
  both ends; the empty string is 0; \<^verbatim>\<open>0x\<close>, \<^verbatim>\<open>0o\<close> and \<^verbatim>\<open>0b\<close> open an unsigned
  literal in that base; otherwise the whole string must be a signed decimal literal
  (digits, an optional fraction, an optional exponent) or a signed \<^verbatim>\<open>Infinity\<close>;
  anything else is \<^verbatim>\<open>NaN\<close>.
\<close>

definition trim :: "string \<Rightarrow> string" where
  "trim s = rev (dropWhile is_space (rev (dropWhile is_space s)))"

definition whole_literal :: "nat \<Rightarrow> string \<Rightarrow> number" where
  "whole_literal r s =
     (let ds = leading_digits r s
      in if s \<noteq> [] \<and> length ds = length s
         then to_double (of_int (digits_value r ds)) else NaN)"

definition radix_prefix :: "string \<Rightarrow> (nat \<times> string) option" where
  "radix_prefix s =
     (case s of
        a # b # cs \<Rightarrow>
          if a \<noteq> CHR ''0'' then None
          else if b = CHR ''x'' \<or> b = CHR ''X'' then Some (16, cs)
          else if b = CHR ''o'' \<or> b = CHR ''O'' then Some (8, cs)
          else if b = CHR ''b'' \<or> b = CHR ''B'' then Some (2, cs)
          else None
      | _ \<Rightarrow> None)"

definition exponent_part :: "string \<Rightarrow> int option" where
  "exponent_part s =
     (case s of
        [] \<Rightarrow> Some 0
      | c # cs \<Rightarrow>
          if c = CHR ''e'' \<or> c = CHR ''E''
          then (case strip_sign cs of
                  (neg, w) \<Rightarrow>
                    let ds = leading_digits 10 w
                    in if w \<noteq> [] \<and> length ds = length w
                       then Some ((if neg then - 1 else 1) * digits_value 10 ds)
                       else None)
          else None)"

definition decimal_literal :: "string \<Rightarrow> number" where
  "decimal_literal s =
     (case strip_sign s of
        (neg, u) \<Rightarrow>
          if u = ''Infinity'' then signed neg PosInf
          else
            let ip = leading_digits 10 u;
                u1 = drop (length ip) u;
                fp = (case u1 of
                        [] \<Rightarrow> []
                      | c # cs \<Rightarrow> if c = CHR ''.'' then leading_digits 10 cs else []);
                u2 = (case u1 of
                        [] \<Rightarrow> []
                      | c # cs \<Rightarrow> if c = CHR ''.'' then drop (length fp) cs else u1)
            in if ip = [] \<and> fp = [] then NaN
               else (case exponent_part u2 of
                       None \<Rightarrow> NaN
                     | Some ex \<Rightarrow>
                         signed neg (to_double (of_int (digits_value 10 (ip @ fp))
                                                * pow10 (ex - int (length fp))))))"

definition StringToNumber :: "string \<Rightarrow> number" where
  "StringToNumber s =
     (let t = trim s
      in if t = [] then Num 0
         else (case radix_prefix t of
                 Some (r, ds) \<Rightarrow> whole_literal r ds
               | None \<Rightarrow> decimal_literal t))"

text \<open>
  The values a field of an answer can hold. An object (an array too) stands in by the
  primitive value that \<^verbatim>\<open>ToPrimitive\<close> with hint number gives for it, which is all that
  \<^verbatim>\<open>Number(...)\<close>, \<^verbatim>\<open>>=\<close> and \<^verbatim>\<open>||\<close> observe of it besides its being truthy.
\<close>

datatype jsvalue =
    JUndefined
  | JNull
  | JBool bool
  | JNumber number
  | JBigInt int
  | JString string
  | JObject jsvalue

text \<open>What \<^verbatim>\<open>x || d\<close> tests.\<close>

fun js_truthy :: "jsvalue \<Rightarrow> bool" where
  "js_truthy JUndefined = False"
| "js_truthy JNull = False"
| "js_truthy (JBool b) = b"
| "js_truthy (JNumber n) = (n \<noteq> NaN \<and> n \<noteq> Num 0)"
| "js_truthy (JBigInt k) = (k \<noteq> 0)"
| "js_truthy (JString s) = (s \<noteq> [])"
| "js_truthy (JObject p) = True"

text \<open>\<^verbatim>\<open>Number(x)\<close>.\<close>

fun Number :: "jsvalue \<Rightarrow> number" where
  "Number JUndefined = NaN"
| "Number JNull = Num 0"
| "Number (JBool b) = Num (if b then 1 else 0)"
| "Number (JNumber n) = n"
| "Number (JBigInt k) = to_double (of_int k)"
| "Number (JString s) = StringToNumber s"
| "Number (JObject p) = Number p"

text \<open>
  \<^verbatim>\<open>x >= y\<close> for a number \<^verbatim>\<open>x\<close>: a BigInt on the right is compared by its exact
  value, every other value by the number it converts to.
\<close>

fun number_ge_value :: "number \<Rightarrow> jsvalue \<Rightarrow> bool" where
  "number_ge_value x (JBigInt k) = number_ge x (Num (of_int k))"
| "number_ge_value x (JObject p) = number_ge_value x p"
| "number_ge_value x JUndefined = number_ge x (Number JUndefined)"
| "number_ge_value x JNull = number_ge x (Number JNull)"
| "number_ge_value x (JBool b) = number_ge x (Number (JBool b))"
| "number_ge_value x (JNumber n) = number_ge x (Number (JNumber n))"
| "number_ge_value x (JString s) = number_ge x (Number (JString s))"

section \<open>The collaborators outside the process\<close>

text \<open>
  The payment service's answers, with every field the sources read. An answer or a
  nested object that is \<^verbatim>\<open>null\<close> or \<^verbatim>\<open>undefined\<close> is \<open>None\<close>; the two fields that
  are read as values, \<^verbatim>\<open>balance\<close> and \<^verbatim>\<open>minCreditsRequired\<close>, hold any value
  (\<open>JUndefined\<close> when missing).
\<close>

record balanceResult =
  balance :: jsvalue

record nftAttrs =
  minCreditsRequired :: jsvalue

record mainAttrs =
  nftAttributes :: "nftAttrs option"

record serviceAttrs =
  main :: "mainAttrs option"

record serviceEntry =
  attributes :: "serviceAttrs option"

record ddo =
  service :: "serviceEntry option list option"

record has_success =
  success :: bool

record purchaseResult = has_success +
  agreementId :: "string option"

record accessConfigResponse =
  proxyUri :: "string option"
  token :: "string option"

record ServiceAccessConfig =
  neverminedProxyUri :: string
  accessToken :: string

text \<open>\<^verbatim>\<open>{ success: boolean; message?: string }\<close>, and \<^verbatim>\<open>MediaGenerationResponse\<close> extending it.\<close>

record outcome = has_success +
  message :: "string option"

record MediaGenerationResponse = outcome +
  imageUrl :: "string option"
  url :: "string option"

text \<open>
  The backend's HTTP answer: \<^verbatim>\<open>response.ok\<close> holds for a status from 200 to 299;
  \<^verbatim>\<open>response.json()\<close> rejects, or yields \<^verbatim>\<open>null\<close> (\<open>None\<close>) or a value whose
  \<^verbatim>\<open>imageUrl\<close> and \<^verbatim>\<open>url\<close> properties may be missing.
\<close>

record responseJson =
  body_imageUrl :: "string option"
  body_url :: "string option"

record httpResponse =
  status :: nat
  json :: "error + responseJson option"

definition ok :: "httpResponse \<Rightarrow> bool" where
  "ok r = (200 \<le> status r \<and> status r \<le> 299)"

text \<open>What \<^verbatim>\<open>axios.get(url, {responseType: "arraybuffer"})\<close> resolves to.\<close>

record axiosResponse =
  data :: "byte list"
  headers :: "(string \<times> string) list"

text \<open>
  One value of \<open>env\<close> fixes how the outside world answers during one tool call: the
  payment SDK, the payments library of the first server, the generation backend and the
  artifact host.
\<close>

record env =
  getPlanBalance :: "string \<Rightarrow> error + balanceResult option"
  getAssetDDO :: "string \<Rightarrow> error + ddo option"
  sdk_orderPlan :: "string \<Rightarrow> error + purchaseResult option"
  getServiceAccessConfig :: "string \<Rightarrow> error + accessConfigResponse option"
  lib_checkBalance :: "string \<Rightarrow> string \<Rightarrow> error + bool"
  lib_getServiceAccess :: "string \<Rightarrow> error + ServiceAccessConfig"
  lib_purchasePlan :: "string \<Rightarrow> error + outcome"
  fetch :: "string \<Rightarrow> string \<Rightarrow> request_body \<Rightarrow> error + httpResponse"
  axios_get :: "string \<Rightarrow> error + axiosResponse"

section \<open>PaymentsManager (services/nevermined/manager.ts)\<close>

definition PLAN_DID :: string where
  "PLAN_DID = ''did:nv:bbc5556a932bdeb88bbe45045530e491ad428b351fb43c8bd4be04dba7878a3d''"

definition AGENT_DID :: string where
  "AGENT_DID = ''did:nv:2fa0a0c9ec6cd923827fe3657298ac9d8cd8cafb07120b10e94b2a26d962a793''"

text \<open>\<^verbatim>\<open>xs?.[i]\<close> on an array whose elements may be \<^verbatim>\<open>null\<close>.\<close>

definition at_index :: "'a option list \<Rightarrow> nat \<Rightarrow> 'a option" where
  "at_index xs i = (if i < length xs then xs ! i else None)"

text \<open>
  \<^verbatim>\<open>ddo?.service?.[2]?.attributes?.main?.nftAttributes?.minCreditsRequired\<close>: each
  \<^verbatim>\<open>?.\<close> stops at a missing value.
\<close>

definition minCreditsRequired_of :: "ddo option \<Rightarrow> jsvalue" where
  "minCreditsRequired_of d =
     (case Option.bind d (\<lambda>d1.
           Option.bind (service d1) (\<lambda>svcs.
           Option.bind (at_index svcs 2) (\<lambda>s.
           Option.bind (attributes s) (\<lambda>a.
           Option.bind (main a) nftAttributes)))) of
        None \<Rightarrow> JUndefined
      | Some n \<Rightarrow> minCreditsRequired n)"

text \<open>\<^verbatim>\<open>... || 0\<close>: the field when it is truthy, the number 0 otherwise.\<close>

definition extractRequiredBalance :: "ddo option \<Rightarrow> jsvalue" where
  "extractRequiredBalance d =
     (if js_truthy (minCreditsRequired_of d) then minCreditsRequired_of d else JNumber (Num 0))"

definition checkBalance :: "env \<Rightarrow> string \<Rightarrow> string \<Rightarrow> bool promise" where
  "checkBalance e plan agent =
     try_catch
       (await (external (GetPlanBalance plan) (getPlanBalance e plan)) (\<lambda>balanceResult.
        await (external (GetAssetDDO agent) (getAssetDDO e agent)) (\<lambda>agentDDO.
          let minRequired = extractRequiredBalance agentDDO in
          case balanceResult of
            None \<Rightarrow> reject (type_error ''undefined'' ''balance'')
          | Some r \<Rightarrow> resolve (number_ge_value (Number (balance r)) minRequired))))
       (\<lambda>error. resolve False)"

definition orderPlan :: "env \<Rightarrow> string \<Rightarrow> outcome promise" where
  "orderPlan e plan =
     try_catch
       (await (external (OrderPlan plan) (sdk_orderPlan e plan)) (\<lambda>purchaseResult.
          case purchaseResult of
            None \<Rightarrow> resolve \<lparr>success = False, message = Some ''Failed to create order''\<rparr>
          | Some r \<Rightarrow>
              if \<not> success r
              then resolve \<lparr>success = False, message = Some ''Failed to create order''\<rparr>
              else resolve \<lparr>success = True,
                     message = Some (''Plan ordered successfully. Agreement ID: ''
                                     @ template (agreementId r))\<rparr>))
       (\<lambda>error. resolve \<lparr>success = False, message = Some (error_text error)\<rparr>)"

definition getServiceAccess :: "env \<Rightarrow> string \<Rightarrow> ServiceAccessConfig promise" where
  "getServiceAccess e agent =
     try_catch
       (await (external (GetServiceAccessConfig agent) (getServiceAccessConfig e agent))
          (\<lambda>accessConfig.
             case accessConfig of
               None \<Rightarrow> reject (Error ''Failed to get service access configuration'')
             | Some c \<Rightarrow>
                 (case token c of
                    None \<Rightarrow> reject (Error ''Failed to get service access configuration'')
                  | Some t \<Rightarrow>
                      if t = []
                      then reject (Error ''Failed to get service access configuration'')
                      else (case proxyUri c of
                              None \<Rightarrow> reject (type_error ''undefined'' ''replace'')
                            | Some u \<Rightarrow>
                                resolve \<lparr>neverminedProxyUri = replace_first ''https'' ''http'' u,
                                         accessToken = t\<rparr>))))
       (\<lambda>error. reject error)"

section \<open>VideoService (services/video/service.ts)\<close>

record VideoService =
  baseUrl :: string
  service_accessToken :: string

definition getVideoService :: "env \<Rightarrow> string \<Rightarrow> VideoService promise" where
  "getVideoService e agent =
     await (getServiceAccess e agent) (\<lambda>accessConfig.
       resolve \<lparr>baseUrl = neverminedProxyUri accessConfig,
                service_accessToken = accessToken accessConfig\<rparr>)"

text \<open>The POST every generation operation sends, and the value \<^verbatim>\<open>response.json()\<close> settles to.\<close>

definition backend_reply :: "env \<Rightarrow> VideoService \<Rightarrow> string \<Rightarrow> request_body \<Rightarrow> error + httpResponse" where
  "backend_reply e vs path body =
     fetch e (baseUrl vs @ path) (''Bearer '' @ service_accessToken vs) body"

definition post :: "env \<Rightarrow> VideoService \<Rightarrow> string \<Rightarrow> request_body \<Rightarrow> httpResponse promise" where
  "post e vs path body =
     external (Fetch (baseUrl vs @ path) (''Bearer '' @ service_accessToken vs) body)
              (backend_reply e vs path body)"

definition settled :: "(error + 'a) \<Rightarrow> 'a promise" where
  "settled r = (\<lambda>l. (r, l))"

definition failure :: "error \<Rightarrow> MediaGenerationResponse" where
  "failure error =
     \<lparr>success = False, message = Some (error_text error), imageUrl = None, url = None\<rparr>"

definition generateText2Image ::
    "env \<Rightarrow> VideoService \<Rightarrow> string \<Rightarrow> MediaGenerationResponse promise" where
  "generateText2Image e vs prompt =
     try_catch
       (await (post e vs ''/api/generate/text2image'' (Text2ImageBody prompt)) (\<lambda>response.
          if \<not> ok response
          then reject (Error (''HTTP error! status: '' @ show_nat (status response)))
          else await (settled (json response)) (\<lambda>result.
                 case result of
                   None \<Rightarrow> reject (type_error ''null'' ''imageUrl'')
                 | Some b \<Rightarrow>
                     resolve \<lparr>success = True, message = None,
                              imageUrl = body_imageUrl b, url = None\<rparr>)))
       (\<lambda>error. resolve (failure error))"

definition generateImage2Image ::
    "env \<Rightarrow> VideoService \<Rightarrow> string \<Rightarrow> string \<Rightarrow> MediaGenerationResponse promise" where
  "generateImage2Image e vs inputImageUrl prompt =
     try_catch
       (await (post e vs ''/api/generate/image2image'' (Image2ImageBody inputImageUrl prompt))
          (\<lambda>response.
             if \<not> ok response
             then reject (Error (''HTTP error! status: '' @ show_nat (status response)))
             else await (settled (json response)) (\<lambda>result.
                    case result of
                      None \<Rightarrow> reject (type_error ''null'' ''imageUrl'')
                    | Some b \<Rightarrow>
                        resolve \<lparr>success = True, message = None,
                                 imageUrl = body_imageUrl b, url = None\<rparr>)))
       (\<lambda>error. resolve (failure error))"

definition generateText2Video ::
    "env \<Rightarrow> VideoService \<Rightarrow> string \<Rightarrow> string list option \<Rightarrow> real option
       \<Rightarrow> MediaGenerationResponse promise" where
  "generateText2Video e vs prompt imageUrls duration =
     try_catch
       (await (post e vs ''/api/generate/text2video'' (Text2VideoBody prompt imageUrls duration))
          (\<lambda>response.
             if \<not> ok response
             then reject (Error (''HTTP error! status: '' @ show_nat (status response)))
             else await (settled (json response)) (\<lambda>result.
                    case result of
                      None \<Rightarrow> reject (type_error ''null'' ''url'')
                    | Some b \<Rightarrow>
                        resolve \<lparr>success = True, message = None,
                                 imageUrl = None, url = body_url b\<rparr>)))
       (\<lambda>error. resolve (failure error))"

section \<open>Tool responses\<close>

text \<open>
  A tool handler returns \<^verbatim>\<open>{ isError?, content, metadata? }\<close>; a missing
  \<^verbatim>\<open>isError\<close> is \<open>False\<close>. A resource carries either a \<^verbatim>\<open>blob\<close> (inline base64)
  or a \<^verbatim>\<open>text\<close>; the first server also returns \<^verbatim>\<open>{type: "image", data, mimeType}\<close>.
\<close>

record resource =
  uri :: string
  blob :: "string option"
  resource_text :: "string option"
  mimeType :: string

datatype content =
    TextContent string
  | ImageContent string string
  | ResourceContent resource

record metadata =
  needsPurchase :: bool
  planDid :: string

record toolResponse =
  isError :: bool
  content :: "content list"
  metadata :: "metadata option"

definition error_response :: "string \<Rightarrow> toolResponse" where
  "error_response t = \<lparr>isError = True, content = [TextContent t], metadata = None\<rparr>"

definition content_response :: "content \<Rightarrow> toolResponse" where
  "content_response c = \<lparr>isError = False, content = [c], metadata = None\<rparr>"

text \<open>
  \<^verbatim>\<open>JSON.stringify({ planDid: p }, null, 2)\<close> for an identifier without characters
  that JSON escapes, as both configured identifiers are.
\<close>

definition stringify_planDid :: "string \<Rightarrow> string" where
  "stringify_planDid p =
     ''{'' @ [CHR 0x0A] @ ''  '' @ [CHR 0x22] @ ''planDid'' @ [CHR 0x22] @ '': ''
       @ [CHR 0x22] @ p @ [CHR 0x22] @ [CHR 0x0A] @ ''}''"

text \<open>The answer every generation tool gives when \<^verbatim>\<open>hasBalance\<close> is false.\<close>

definition insufficient_credits :: "string \<Rightarrow> toolResponse" where
  "insufficient_credits p =
     \<lparr>isError = False,
      content =
        [TextContent ''Insufficient credits. Please purchase a plan using the purchase_plan tool with the following parameters:'',
         TextContent (stringify_planDid p)],
      metadata = Some \<lparr>needsPurchase = True, planDid = p\<rparr>\<rparr>"

section \<open>The server built on PaymentsManager\<close>

definition downloadAsBase64 :: "env \<Rightarrow> string \<Rightarrow> string option promise" where
  "downloadAsBase64 e u =
     try_catch
       (await (external (AxiosGet u) (axios_get e u)) (\<lambda>response.
          if length (data response) > 1024 * 1024
          then resolve None
          else resolve (Some (base64_encode (data response)))))
       (\<lambda>error. reject error)"

text \<open>
  \<^verbatim>\<open>b ? {uri, blob: b, mimeType} : {uri, text, mimeType}\<close> inside a resource content.
  In the handlers below \<open>template x\<close> stands for the string \<open>x\<close> itself, on the
  branch where \<open>x\<close> has been tested truthy.
\<close>

definition resource_result :: "string \<Rightarrow> string option \<Rightarrow> string \<Rightarrow> string \<Rightarrow> toolResponse" where
  "resource_result u b too_large mime =
     content_response (ResourceContent
       (if truthy b
        then \<lparr>uri = u, blob = b, resource_text = None, mimeType = mime\<rparr>
        else \<lparr>uri = u, blob = None, resource_text = Some too_large, mimeType = mime\<rparr>))"

definition purchase_plan :: "env \<Rightarrow> string \<Rightarrow> toolResponse promise" where
  "purchase_plan e plan =
     try_catch
       (await (orderPlan e plan) (\<lambda>purchaseResult.
          if \<not> success purchaseResult
          then resolve (error_response (''Error purchasing plan: ''
                          @ or_default (message purchaseResult) ''Unknown error''))
          else resolve (content_response (TextContent
                          (or_default (message purchaseResult)
                             ''Plan purchased successfully. You can now generate media.'')))))
       (\<lambda>error. resolve (error_response (''Error in plan purchase: '' @ error_text error)))"

definition text2image :: "env \<Rightarrow> string \<Rightarrow> toolResponse promise" where
  "text2image e prompt =
     await (checkBalance e PLAN_DID AGENT_DID) (\<lambda>hasBalance.
       if \<not> hasBalance then resolve (insufficient_credits PLAN_DID)
       else
         await (getVideoService e AGENT_DID) (\<lambda>videoService.
         await (generateText2Image e videoService prompt) (\<lambda>result.
           if \<not> success result \<or> \<not> truthy (imageUrl result)
           then resolve (error_response (''Error generating image: ''
                           @ or_default (message result) ''No image URL returned''))
           else
             await (downloadAsBase64 e (template (imageUrl result))) (\<lambda>imageBase64.
               resolve (resource_result (template (imageUrl result)) imageBase64
                          ''Image too large to display directly'' ''image/jpeg'')))))"

definition image2image :: "env \<Rightarrow> string \<Rightarrow> string \<Rightarrow> toolResponse promise" where
  "image2image e inputImageUrl prompt =
     try_catch
       (await (checkBalance e PLAN_DID AGENT_DID) (\<lambda>hasBalance.
          if \<not> hasBalance then resolve (insufficient_credits PLAN_DID)
          else
            await (getVideoService e AGENT_DID) (\<lambda>videoService.
            await (generateImage2Image e videoService inputImageUrl prompt) (\<lambda>result.
              if \<not> success result \<or> \<not> truthy (imageUrl result)
              then resolve (error_response (''Error transforming image: ''
                              @ or_default (message result) ''No image URL returned''))
              else
                await (downloadAsBase64 e (template (imageUrl result))) (\<lambda>imageBase64.
                  resolve (resource_result (template (imageUrl result)) imageBase64
                             ''Image too large to display directly'' ''image/jpeg''))))))
       (\<lambda>error. resolve (error_response ''Error transforming image''))"

definition text2video ::
    "env \<Rightarrow> string \<Rightarrow> string list option \<Rightarrow> real option \<Rightarrow> toolResponse promise" where
  "text2video e prompt imageUrls duration =
     await (checkBalance e PLAN_DID AGENT_DID) (\<lambda>hasBalance.
       if \<not> hasBalance then resolve (insufficient_credits PLAN_DID)
       else
         await (getVideoService e AGENT_DID) (\<lambda>videoService.
         await (generateText2Video e videoService prompt imageUrls duration) (\<lambda>result.
           if \<not> success result \<or> \<not> truthy (url result)
           then resolve (error_response (''Error generating video: ''
                           @ or_default (message result) ''No video URL returned''))
           else
             await (downloadAsBase64 e (template (url result))) (\<lambda>videoBase64.
               resolve (resource_result (template (url result)) videoBase64
                          ''Video too large to display directly'' ''video/mp4'')))))"

section \<open>The server built on the payments library\<close>

text \<open>
  The other entry point keeps the same tools but asks the external payments library
  for the balance, the access grant and the purchase, and has its own download helper,
  which reads the \<^verbatim>\<open>content-length\<close> header and catches every failure.
\<close>

definition downloadAsBase64_v1 :: "env \<Rightarrow> string \<Rightarrow> string option promise" where
  "downloadAsBase64_v1 e u =
     try_catch
       (await (external (AxiosGet u) (axios_get e u)) (\<lambda>response.
          let contentLength =
                parseInt (or_default (map_of (headers response) ''content-length'') ''0'') in
          if number_gt contentLength (Num (1024 * 1024))
          then resolve None
          else resolve (Some (base64_encode (data response)))))
       (\<lambda>error. resolve None)"

text \<open>\<^verbatim>\<open>b ? {type: "image", data: b, mimeType} : {type: "resource", resource: {...}}\<close>.\<close>

definition image_result :: "string \<Rightarrow> string option \<Rightarrow> string \<Rightarrow> string \<Rightarrow> toolResponse" where
  "image_result u b label mime =
     content_response
       (if truthy b
        then ImageContent (template b) mime
        else ResourceContent \<lparr>uri = u, blob = None, resource_text = Some label, mimeType = mime\<rparr>)"

definition purchase_plan_v1 :: "env \<Rightarrow> string \<Rightarrow> toolResponse promise" where
  "purchase_plan_v1 e plan =
     try_catch
       (await (external (LibPurchasePlan plan) (lib_purchasePlan e plan)) (\<lambda>purchaseResult.
          if \<not> success purchaseResult
          then resolve (error_response (''Error purchasing plan: ''
                          @ or_default (message purchaseResult) ''Unknown error''))
          else resolve (content_response (TextContent
                          (or_default (message purchaseResult)
                             ''Plan purchased successfully. You can now generate media.'')))))
       (\<lambda>error. resolve (error_response (''Error in plan purchase: '' @ error_text error)))"

definition videoService_v1 :: "env \<Rightarrow> VideoService promise" where
  "videoService_v1 e =
     await (external (LibGetServiceAccess AGENT_DID) (lib_getServiceAccess e AGENT_DID))
       (\<lambda>accessConfig.
          resolve \<lparr>baseUrl = neverminedProxyUri accessConfig,
                   service_accessToken = accessToken accessConfig\<rparr>)"

definition text2image_v1 :: "env \<Rightarrow> string \<Rightarrow> toolResponse promise" where
  "text2image_v1 e prompt =
     await (external (LibCheckBalance PLAN_DID AGENT_DID) (lib_checkBalance e PLAN_DID AGENT_DID))
       (\<lambda>hasBalance.
          if \<not> hasBalance then resolve (insufficient_credits PLAN_DID)
          else
            await (videoService_v1 e) (\<lambda>videoService.
            await (generateText2Image e videoService prompt) (\<lambda>result.
              if \<not> success result \<or> \<not> truthy (imageUrl result)
              then resolve (error_response (''Error generating image: ''
                              @ or_default (message result) ''No image URL returned''))
              else
                await (downloadAsBase64_v1 e (template (imageUrl result))) (\<lambda>imageBase64.
                  resolve (image_result (template (imageUrl result)) imageBase64
                             ''Generated image'' ''image/png'')))))"

definition image2image_v1 :: "env \<Rightarrow> string \<Rightarrow> string \<Rightarrow> toolResponse promise" where
  "image2image_v1 e inputImageUrl prompt =
     try_catch
       (await (external (LibCheckBalance PLAN_DID AGENT_DID)
                 (lib_checkBalance e PLAN_DID AGENT_DID))
          (\<lambda>hasBalance.
             if \<not> hasBalance then resolve (insufficient_credits PLAN_DID)
             else
               await (videoService_v1 e) (\<lambda>videoService.
               await (generateImage2Image e videoService inputImageUrl prompt) (\<lambda>result.
                 if \<not> success result \<or> \<not> truthy (imageUrl result)
                 then resolve (error_response (''Error transforming image: ''
                                 @ or_default (message result) ''No image URL returned''))
                 else
                   await (downloadAsBase64_v1 e (template (imageUrl result))) (\<lambda>imageBase64.
                     resolve (image_result (template (imageUrl result)) imageBase64
                                ''Transformed image'' ''image/png''))))))
       (\<lambda>error. resolve (error_response (''Error in image transformation: '' @ error_text error)))"

definition text2video_v1 ::
    "env \<Rightarrow> string \<Rightarrow> string list option \<Rightarrow> real option \<Rightarrow> toolResponse promise" where
  "text2video_v1 e prompt imageUrls duration =
     await (external (LibCheckBalance PLAN_DID AGENT_DID) (lib_checkBalance e PLAN_DID AGENT_DID))
       (\<lambda>hasBalance.
          if \<not> hasBalance then resolve (insufficient_credits PLAN_DID)
          else
            await (videoService_v1 e) (\<lambda>videoService.
            await (generateText2Video e videoService prompt imageUrls duration) (\<lambda>result.
              if \<not> success result \<or> \<not> truthy (url result)
              then resolve (error_response (''Error generating video: ''
                              @ or_default (message result) ''No video URL returned''))
              else
                resolve (content_response (ResourceContent
                  \<lparr>uri = template (url result), blob = None,
                   resource_text = Some ''Generated video'', mimeType = ''video/mp4''\<rparr>)))))"

section \<open>Observations on a run\<close>

text \<open>The calls that reach the generation backend.\<close>

fun is_backend_call :: "call \<Rightarrow> bool" where
  "is_backend_call (Fetch u a b) = True"
| "is_backend_call _ = False"

definition backend_calls :: "call list \<Rightarrow> call list" where
  "backend_calls l = filter is_backend_call l"

text \<open>The mime types a response attaches to its contents.\<close>

fun content_mimeType :: "content \<Rightarrow> string option" where
  "content_mimeType (TextContent t) = None"
| "content_mimeType (ImageContent d m) = Some m"
| "content_mimeType (ResourceContent r) = Some (mimeType r)"

text \<open>
  A world in which everything succeeds: ten credits against a requirement of one, a
  grant, a backend that names both artifacts, and an artifact of three bytes.
\<close>

definition descriptor_with :: "jsvalue \<Rightarrow> ddo" where
  "descriptor_with m =
     \<lparr>service = Some [None, None,
        Some \<lparr>attributes = Some \<lparr>main = Some \<lparr>nftAttributes =
          Some \<lparr>minCreditsRequired = m\<rparr>\<rparr>\<rparr>\<rparr>]\<rparr>"

definition sample_ddo :: ddo where
  "sample_ddo = descriptor_with (JNumber (Num 1))"

definition sample_env :: env where
  "sample_env =
     \<lparr>getPlanBalance = (\<lambda>p. Inr (Some \<lparr>balance = JBigInt 10\<rparr>)),
      getAssetDDO = (\<lambda>a. Inr (Some sample_ddo)),
      sdk_orderPlan = (\<lambda>p. Inr (Some \<lparr>success = True, agreementId = Some ''0xabc''\<rparr>)),
      getServiceAccessConfig =
        (\<lambda>a. Inr (Some \<lparr>proxyUri = Some ''https://proxy.example'', token = Some ''tok''\<rparr>)),
      lib_checkBalance = (\<lambda>p a. Inr True),
      lib_getServiceAccess =
        (\<lambda>a. Inr \<lparr>neverminedProxyUri = ''http://proxy.example'', accessToken = ''tok''\<rparr>),
      lib_purchasePlan = (\<lambda>p. Inr \<lparr>success = True, message = None\<rparr>),
      fetch = (\<lambda>u a b. Inr \<lparr>status = 200, json = Inr (Some
                \<lparr>body_imageUrl = Some ''http://cdn.example/a.jpg'',
                 body_url = Some ''http://cdn.example/a.mp4''\<rparr>)\<rparr>),
      axios_get = (\<lambda>u. Inr \<lparr>data = [77, 97, 110], headers = []\<rparr>)\<rparr>"

definition sample_service :: VideoService where
  "sample_service = \<lparr>baseUrl = ''http://proxy.example'', service_accessToken = ''tok''\<rparr>"

text \<open>Variations of that world, one collaborator changed in each.\<close>

definition artifact_env :: "byte list \<Rightarrow> env" where
  "artifact_env bs = sample_env\<lparr>axios_get := (\<lambda>u. Inr \<lparr>data = bs, headers = []\<rparr>)\<rparr>"

definition header_env :: "string \<Rightarrow> env" where
  "header_env h =
     sample_env\<lparr>axios_get :=
       (\<lambda>u. Inr \<lparr>data = [77, 97, 110], headers = [(''content-length'', h)]\<rparr>)\<rparr>"

definition failing_download_env :: "error \<Rightarrow> env" where
  "failing_download_env err = sample_env\<lparr>axios_get := (\<lambda>u. Inl err)\<rparr>"

definition poor_env :: env where
  "poor_env =
     sample_env\<lparr>getPlanBalance := (\<lambda>p. Inr (Some \<lparr>balance = JBigInt 0\<rparr>)),
                lib_checkBalance := (\<lambda>p a. Inr False)\<rparr>"

definition unreachable_payments_env :: "error \<Rightarrow> env" where
  "unreachable_payments_env err =
     sample_env\<lparr>getPlanBalance := (\<lambda>p. Inl err), sdk_orderPlan := (\<lambda>p. Inl err)\<rparr>"

definition rejected_order_env :: env where
  "rejected_order_env = sample_env\<lparr>sdk_orderPlan := (\<lambda>p. Inr None)\<rparr>"

definition no_token_env :: env where
  "no_token_env =
     sample_env\<lparr>getServiceAccessConfig :=
       (\<lambda>a. Inr (Some \<lparr>proxyUri = Some ''https://proxy.example'', token = None\<rparr>))\<rparr>"

definition empty_body_env :: env where
  "empty_body_env =
     sample_env\<lparr>fetch := (\<lambda>u a b. Inr \<lparr>status = 200,
                   json = Inr (Some \<lparr>body_imageUrl = None, body_url = None\<rparr>)\<rparr>)\<rparr>"

definition failing_backend_env :: env where
  "failing_backend_env =
     sample_env\<lparr>fetch := (\<lambda>u a b. Inr \<lparr>status = 500,
                   json = Inl (Error ''Unexpected token < in JSON at position 0'')\<rparr>)\<rparr>"

definition balance_env :: "jsvalue \<Rightarrow> jsvalue \<Rightarrow> env" where
  "balance_env b m =
     sample_env\<lparr>getPlanBalance := (\<lambda>p. Inr (Some \<lparr>balance = b\<rparr>)),
                getAssetDDO := (\<lambda>a. Inr (Some (descriptor_with m)))\<rparr>"

definition null_descriptor_env :: env where
  "null_descriptor_env = sample_env\<lparr>getAssetDDO := (\<lambda>a. Inr None)\<rparr>"

text \<open>
  The requirement as the specification words it: the \<^verbatim>\<open>minCreditsRequired\<close> field that
  the agent's descriptor holds at \<^verbatim>\<open>service[2].attributes.main.nftAttributes\<close>, and 0
  when that field is absent (or holds a falsy value, which compares as 0 does). It is
  written here by cases on the descriptor, apart from the chain of the code.
\<close>

definition descriptor_field :: "ddo option \<Rightarrow> jsvalue" where
  "descriptor_field d =
     (case d of
        None \<Rightarrow> JUndefined
      | Some d1 \<Rightarrow>
          (case service d1 of
             None \<Rightarrow> JUndefined
           | Some svcs \<Rightarrow>
               (case drop 2 svcs of
                  [] \<Rightarrow> JUndefined
                | None # rest \<Rightarrow> JUndefined
                | Some s # rest \<Rightarrow>
                    (case attributes s of
                       None \<Rightarrow> JUndefined
                     | Some a \<Rightarrow>
                         (case main a of
                            None \<Rightarrow> JUndefined
                          | Some m \<Rightarrow>
                              (case nftAttributes m of
                                 None \<Rightarrow> JUndefined
                               | Some n \<Rightarrow> minCreditsRequired n))))))"

definition minRequired_spec :: "ddo option \<Rightarrow> jsvalue" where
  "minRequired_spec d =
     (if js_truthy (descriptor_field d) then descriptor_field d else JNumber (Num 0))"

section \<open>How each operation runs\<close>

lemmas promise_defs = resolve_def reject_def await_def try_catch_def external_def settled_def

lemma downloadAsBase64_run:
  "downloadAsBase64 e u l =
     (case axios_get e u of
        Inl err \<Rightarrow> (Inl err, l @ [AxiosGet u])
      | Inr r \<Rightarrow> (if length (data r) > 1048576 then Inr None
                  else Inr (Some (base64_encode (data r))), l @ [AxiosGet u]))"
  by (simp add: downloadAsBase64_def promise_defs split: sum.splits)

lemma downloadAsBase64_v1_run:
  "downloadAsBase64_v1 e u l =
     (case axios_get e u of
        Inl err \<Rightarrow> (Inr None, l @ [AxiosGet u])
      | Inr r \<Rightarrow>
          (if number_gt (parseInt (or_default (map_of (headers r) ''content-length'') ''0''))
                (Num 1048576)
           then Inr None else Inr (Some (base64_encode (data r))), l @ [AxiosGet u]))"
  by (simp add: downloadAsBase64_v1_def promise_defs split: sum.splits)

lemma checkBalance_run:
  "checkBalance e p a l =
     (case getPlanBalance e p of
        Inl err \<Rightarrow> (Inr False, l @ [GetPlanBalance p])
      | Inr br \<Rightarrow>
          (case getAssetDDO e a of
             Inl err \<Rightarrow> (Inr False, l @ [GetPlanBalance p, GetAssetDDO a])
           | Inr d \<Rightarrow>
               (Inr (case br of
                       None \<Rightarrow> False
                     | Some r \<Rightarrow> number_ge_value (Number (balance r)) (extractRequiredBalance d)),
                l @ [GetPlanBalance p, GetAssetDDO a])))"
  by (simp add: checkBalance_def promise_defs split: sum.splits option.splits)

lemma checkBalance_resolves: "\<exists>b. fst (checkBalance e p a l) = Inr b"
  by (cases "getPlanBalance e p"; cases "getAssetDDO e a"; auto simp: checkBalance_run)

lemma checkBalance_log: "backend_calls (snd (checkBalance e p a l)) = backend_calls l"
  by (cases "getPlanBalance e p"; cases "getAssetDDO e a";
      simp add: checkBalance_run backend_calls_def)

lemma orderPlan_run:
  "orderPlan e p l =
     (Inr (case sdk_orderPlan e p of
             Inl err \<Rightarrow> \<lparr>success = False, message = Some (error_text err)\<rparr>
           | Inr None \<Rightarrow> \<lparr>success = False, message = Some ''Failed to create order''\<rparr>
           | Inr (Some r) \<Rightarrow>
               if success r
               then \<lparr>success = True,
                     message = Some (''Plan ordered successfully. Agreement ID: ''
                                     @ template (agreementId r))\<rparr>
               else \<lparr>success = False, message = Some ''Failed to create order''\<rparr>),
      l @ [OrderPlan p])"
  by (simp add: orderPlan_def promise_defs split: sum.splits option.splits)

lemma truthy_template: "truthy t \<Longrightarrow> template t \<noteq> []"
  by (cases t) auto

lemma getServiceAccess_run:
  "getServiceAccess e a l =
     (case getServiceAccessConfig e a of
        Inl err \<Rightarrow> Inl err
      | Inr None \<Rightarrow> Inl (Error ''Failed to get service access configuration'')
      | Inr (Some c) \<Rightarrow>
          if \<not> truthy (token c) then Inl (Error ''Failed to get service access configuration'')
          else (case proxyUri c of
                  None \<Rightarrow> Inl (type_error ''undefined'' ''replace'')
                | Some u \<Rightarrow> Inr \<lparr>neverminedProxyUri = replace_first ''https'' ''http'' u,
                                 accessToken = template (token c)\<rparr>),
      l @ [GetServiceAccessConfig a])"
  by (simp add: getServiceAccess_def promise_defs split: sum.splits option.splits)

lemma getVideoService_run:
  "getVideoService e a l =
     (case getServiceAccess e a l of
        (Inl err, l') \<Rightarrow> (Inl err, l')
      | (Inr c, l') \<Rightarrow>
          (Inr \<lparr>baseUrl = neverminedProxyUri c, service_accessToken = accessToken c\<rparr>, l'))"
  by (simp add: getVideoService_def promise_defs split: sum.splits prod.splits)

section \<open>Base64 decodes what it encoded\<close>

lemma b64_alphabet:
  "map b64_char [0..<64] = ''ABCDEFGHIJKLMNOPQRSTUVWXYZabcdefghijklmnopqrstuvwxyz0123456789+/''"
  by code_simp





lemma base64_Man: "base64_encode [77, 97, 110] = ''TWFu''"
  by code_simp

section \<open>Doubles and the conversions to them\<close>

lemma bit_length_nonneg: "0 \<le> bit_length n"
  by (induction n rule: bit_length.induct) (subst bit_length.simps, simp)

lemma bit_length_pos: "0 < n \<Longrightarrow> 1 \<le> bit_length n"
  using bit_length_nonneg [of "n div 2"] by (subst bit_length.simps) simp

lemma bit_length_bounds:
  "0 < n \<Longrightarrow> 2 ^ nat (bit_length n - 1) \<le> n \<and> n < 2 ^ nat (bit_length n)"
proof (induction n rule: bit_length.induct)
  case (1 n)
  show ?case
  proof (cases "n = 1")
    case True
    have "bit_length 1 = 1"
      by (subst bit_length.simps, simp) (subst bit_length.simps, simp)
    with True show ?thesis by simp
  next
    case False
    with "1.prems" have h: "0 < n div 2" by simp
    with "1.IH" "1.prems" have IH: "2 ^ nat (bit_length (n div 2) - 1) \<le> n div 2"
        "n div 2 < 2 ^ nat (bit_length (n div 2))"
      by simp_all
    have bl: "bit_length n = 1 + bit_length (n div 2)"
      using "1.prems" by (subst bit_length.simps) simp
    have p: "1 \<le> bit_length (n div 2)" using h by (rule bit_length_pos)
    then have e: "nat (bit_length (n div 2)) = Suc (nat (bit_length (n div 2) - 1))"
      by simp
    have lo: "2 ^ nat (bit_length (n div 2)) \<le> n"
    proof -
      have "(2::int) ^ nat (bit_length (n div 2)) = 2 * 2 ^ nat (bit_length (n div 2) - 1)"
        by (subst e) simp
      also have "\<dots> \<le> 2 * (n div 2)" using IH(1) by simp
      also have "\<dots> \<le> n" by simp
      finally show ?thesis .
    qed
    have hi: "n < 2 ^ nat (1 + bit_length (n div 2))"
    proof -
      have "n < 2 * (n div 2 + 1)" by simp
      also have "\<dots> \<le> 2 * 2 ^ nat (bit_length (n div 2))" using IH(2) by simp
      also have "\<dots> = 2 ^ nat (1 + bit_length (n div 2))"
        using p by (simp add: nat_add_distrib)
      finally show ?thesis .
    qed
    from lo hi bl show ?thesis by simp
  qed
qed

lemma round_half_even_of_int: "round_half_even (of_int m) = m"
  by (simp add: round_half_even_def)

lemma round_positive_of_int:
  assumes "0 < n" and "n < 2 ^ 53"
  shows "round_positive (of_int n) = Num (of_int n)"
proof -
  let ?b = "bit_length n"
  from bit_length_bounds [OF assms(1)]
  have lo: "2 ^ nat (?b - 1) \<le> n" and hi: "n < 2 ^ nat ?b" by simp_all
  have b1: "1 \<le> ?b" using assms(1) by (rule bit_length_pos)
  have b53: "?b \<le> 53"
  proof (rule ccontr)
    assume "\<not> ?b \<le> 53"
    then have "53 \<le> nat (?b - 1)" by simp
    then have "(2::int) ^ 53 \<le> 2 ^ nat (?b - 1)"
      by (rule power_increasing) simp
    with lo assms(2) show False by simp
  qed
  have one: "bit_length 1 = 1"
    by (subst bit_length.simps, simp) (subst bit_length.simps, simp)
  have "(of_int (2 ^ nat (?b - 1)) :: rat) \<le> of_int n"
    using lo by (simp only: of_int_le_iff)
  then have fl: "floor_log2 (of_int n) = ?b - 1"
    using b1 by (simp add: floor_log2_def one pow2_def)
  define j where "j = nat (53 - bit_length n)"
  have e: "max (floor_log2 (of_int n) - 52) (- 1074) = - int j"
    using b1 b53 by (simp add: fl j_def)
  have pw: "pow2 (- int j) = 1 / 2 ^ j"
    by (cases "j = 0") (simp_all add: pow2_def)
  have sc: "(of_int n :: rat) / pow2 (- int j) = of_int (n * 2 ^ j)"
    by (simp add: pw)
  have unscale: "(of_int (n * 2 ^ j) :: rat) * pow2 (- int j) = of_int n"
    by (simp add: pw)
  have small: "\<not> pow2 1024 \<le> (of_int n :: rat)"
  proof -
    have "(of_int n :: rat) < of_int (2 ^ 53)" using assms(2) by (simp only: of_int_less_iff)
    also have "\<dots> \<le> pow2 1024" by (simp add: pow2_def)
    finally show ?thesis by simp
  qed
  show ?thesis
    unfolding round_positive_def e Let_def sc round_half_even_of_int unscale
    using small by simp
qed

lemma to_double_of_int: "\<bar>n\<bar> < 2 ^ 53 \<Longrightarrow> to_double (of_int n) = Num (of_int n)"
proof -
  assume a: "\<bar>n\<bar> < 2 ^ 53"
  consider "n = 0" | "0 < n" | "n < 0" by linarith
  then show ?thesis
  proof cases
    case 1 then show ?thesis by (simp add: to_double_def)
  next
    case 2
    with a have "n < 2 ^ 53" by simp
    with 2 show ?thesis by (simp add: to_double_def round_positive_of_int)
  next
    case 3
    with a have "0 < - n" "- n < 2 ^ 53" by simp_all
    then have "round_positive (of_int (- n)) = Num (of_int (- n))"
      by (rule round_positive_of_int)
    with 3 show ?thesis by (simp add: to_double_def)
  qed
qed

lemma to_double_numeral:
  "numeral k < (2 ^ 53 :: int) \<Longrightarrow> to_double (numeral k) = Num (numeral k)"
  using to_double_of_int [of "numeral k"] by simp

lemma to_double_one: "to_double 1 = Num 1"
  using to_double_of_int [of 1] by simp

lemma to_double_zero: "to_double 0 = Num 0"
  by (simp add: to_double_def)

lemmas parseInt_defs =
  parseInt_def strip_sign_def strip_radix_def digit_value_def digits_value_def is_space_def

lemma parseInt_zero: "parseInt ''0'' = Num 0"
  by (simp add: parseInt_defs to_double_zero)

lemma parseInt_2000000: "parseInt ''2000000'' = Num 2000000"
  by (simp add: parseInt_defs to_double_numeral)

lemmas StringToNumber_defs =
  StringToNumber_def trim_def radix_prefix_def whole_literal_def decimal_literal_def
  exponent_part_def strip_sign_def digit_value_def digits_value_def is_space_def pow10_def
  signed_def

lemma StringToNumber_1: "StringToNumber ''1'' = Num 1"
  by (simp add: StringToNumber_defs to_double_one)

lemma StringToNumber_7: "StringToNumber ''7'' = Num 7"
  by (simp add: StringToNumber_defs to_double_numeral)

lemma StringToNumber_empty: "StringToNumber [] = Num 0"
  by (simp add: StringToNumber_defs)

lemma StringToNumber_abc: "StringToNumber ''abc'' = NaN"
  by (simp add: StringToNumber_defs)

lemma floor_rat_numeral:
  "\<lfloor>(numeral a :: rat) / numeral b\<rfloor> = numeral a div numeral b"
  using floor_divide_of_int_eq [of "numeral a" "numeral b", where ?'a = rat] by simp

lemma to_double_2p53p1: "to_double 9007199254740993 = Num 9007199254740992"
  by (simp add: to_double_def round_positive_def floor_log2_def bit_length.simps pow2_def
        round_half_even_def Let_def floor_rat_numeral)

section \<open>The download helper of the PaymentsManager server\<close>

text \<open>
  An artifact of exactly 1,048,576 bytes is not "larger than 1MB" for the test
  \<^verbatim>\<open>byteLength > 1024 * 1024\<close>: it is encoded inline.
\<close>

theorem downloadAsBase64_boundary_inlined:
  "length (replicate 1048576 (0 :: byte)) = 1048576
   \<and> fst (downloadAsBase64 (artifact_env (replicate 1048576 0)) ''http://cdn.example/a.jpg'' [])
       = Inr (Some (base64_encode (replicate 1048576 0)))"
  by (simp add: downloadAsBase64_run artifact_env_def)

text \<open>
  C1, as the code has it: for a fetched artifact, \<open>downloadAsBase64\<close> returns the base64
  encoding of its bytes when the artifact has at most 1,048,576 bytes, and the
  reference-only outcome (null) when it has 1,048,577 bytes or more.
\<close>

theorem downloadAsBase64_threshold:
  assumes "axios_get e u = Inr r"
  shows "fst (downloadAsBase64 e u l) =
           (if length (data r) \<le> 1048576 then Inr (Some (base64_encode (data r))) else Inr None)"
  using assms by (simp add: downloadAsBase64_run)

theorem downloadAsBase64_threshold_witness:
  "fst (downloadAsBase64 (artifact_env (replicate 1048576 0)) ''http://cdn.example/a.jpg'' [])
     = Inr (Some (base64_encode (replicate 1048576 0)))
   \<and> fst (downloadAsBase64 (artifact_env (replicate 1048577 0)) ''http://cdn.example/a.jpg'' [])
     = Inr None"
proof -
  have a: "axios_get (artifact_env (replicate 1048576 0)) ''http://cdn.example/a.jpg''
             = Inr \<lparr>data = replicate 1048576 0, headers = []\<rparr>"
    by (simp add: artifact_env_def)
  have b: "axios_get (artifact_env (replicate 1048577 0)) ''http://cdn.example/a.jpg''
             = Inr \<lparr>data = replicate 1048577 0, headers = []\<rparr>"
    by (simp add: artifact_env_def)
  from downloadAsBase64_threshold [OF a, of "[]"] downloadAsBase64_threshold [OF b, of "[]"]
  show ?thesis by simp
qed



section \<open>The download helper of the payments-library server\<close>

text \<open>
  C10: the helper of the payments-library server decides on the parsed
  \<^verbatim>\<open>content-length\<close> header, not on the number of bytes fetched: it returns null exactly
  when the parsed header exceeds 1,048,576. Without that header the parsed length is 0
  and the artifact is encoded inline whatever its size, also beyond 1,048,576 bytes.
\<close>

theorem downloadAsBase64_v1_header_absent:
  assumes "axios_get e u = Inr r"
  shows "(fst (downloadAsBase64_v1 e u l) = Inr None)
           = number_gt (parseInt (or_default (map_of (headers r) ''content-length'') ''0''))
               (Num 1048576)
         \<and> (map_of (headers r) ''content-length'' = None
              \<longrightarrow> fst (downloadAsBase64_v1 e u l) = Inr (Some (base64_encode (data r))))"
  using assms by (auto simp: downloadAsBase64_v1_run parseInt_zero)

theorem downloadAsBase64_v1_header_absent_witness:
  "1048576 < length (replicate 1048577 (0 :: byte))
   \<and> fst (downloadAsBase64_v1 (artifact_env (replicate 1048577 0)) ''http://cdn.example/a.jpg'' [])
       = Inr (Some (base64_encode (replicate 1048577 0)))
   \<and> fst (downloadAsBase64_v1 (header_env ''2000000'') ''http://cdn.example/a.jpg'' [])
       = Inr None"
proof -
  have a: "axios_get (artifact_env (replicate 1048577 0)) ''http://cdn.example/a.jpg''
             = Inr \<lparr>data = replicate 1048577 0, headers = []\<rparr>"
    by (simp add: artifact_env_def)
  have h: "map_of (headers \<lparr>data = replicate 1048577 (0 :: byte), headers = []\<rparr>)
             ''content-length'' = None"
    by simp
  have len: "1048576 < length (replicate 1048577 (0 :: byte))"
    by (simp only: length_replicate)
  have d: "data \<lparr>data = replicate 1048577 (0 :: byte), headers = []\<rparr> = replicate 1048577 0"
    by (simp only: axiosResponse.simps)
  from downloadAsBase64_v1_header_absent [OF a, of "[]"] h
  have big: "fst (downloadAsBase64_v1 (artifact_env (replicate 1048577 0))
                    ''http://cdn.example/a.jpg'' [])
               = Inr (Some (base64_encode
                       (data \<lparr>data = replicate 1048577 (0 :: byte), headers = []\<rparr>)))"
    by blast
  have b: "axios_get (header_env ''2000000'') ''http://cdn.example/a.jpg''
             = Inr \<lparr>data = [77, 97, 110], headers = [(''content-length'', ''2000000'')]\<rparr>"
    by (simp add: header_env_def)
  from downloadAsBase64_v1_header_absent [OF b, of "[]"]
  have small: "fst (downloadAsBase64_v1 (header_env ''2000000'') ''http://cdn.example/a.jpg'' [])
                 = Inr None"
    by (simp add: parseInt_2000000)
  from big d len small show ?thesis
    by (simp only:) 
qed

section \<open>The broker: balance, purchase, access grant\<close>

lemma minCreditsRequired_of_spec: "minCreditsRequired_of d = descriptor_field d"
proof (cases d)
  case None
  then show ?thesis by (simp add: minCreditsRequired_of_def descriptor_field_def)
next
  case (Some d1)
  show ?thesis
  proof (cases "service d1")
    case None
    with Some show ?thesis by (simp add: minCreditsRequired_of_def descriptor_field_def)
  next
    case (Some svcs)
    have idx: "at_index svcs 2 = (case drop 2 svcs of [] \<Rightarrow> None | x # rest \<Rightarrow> x)"
      by (cases "2 < length svcs")
         (auto simp: at_index_def split: list.splits dest: arg_cong [where f = hd]
               simp: hd_drop_conv_nth)
    from \<open>d = Some d1\<close> Some show ?thesis
      by (simp add: minCreditsRequired_of_def descriptor_field_def idx
            split: list.splits option.splits)
  qed
qed

lemma extractRequiredBalance_spec: "extractRequiredBalance d = minRequired_spec d"
  by (simp add: extractRequiredBalance_def minRequired_spec_def minCreditsRequired_of_spec)

lemma descriptor_field_with: "descriptor_field (Some (descriptor_with m)) = m"
  by (simp add: descriptor_field_def descriptor_with_def)

lemma descriptor_field_read:
  assumes "service d = Some svcs" and "2 < length svcs" and "svcs ! 2 = Some s"
    and "attributes s = Some atr" and "main atr = Some m" and "nftAttributes m = Some n"
  shows "descriptor_field (Some d) = minCreditsRequired n"
proof -
  from assms(2) have "drop 2 svcs = svcs ! 2 # drop 3 svcs"
    by (simp add: Cons_nth_drop_Suc numeral_3_eq_3 numeral_2_eq_2)
  with assms show ?thesis by (simp add: descriptor_field_def)
qed

lemma checkBalance_sample:
  "checkBalance sample_env PLAN_DID AGENT_DID l
     = (Inr True, l @ [GetPlanBalance PLAN_DID, GetAssetDDO AGENT_DID])"
  by (simp add: checkBalance_run sample_env_def sample_ddo_def extractRequiredBalance_spec
        minRequired_spec_def descriptor_field_with to_double_numeral)

lemma checkBalance_poor:
  "checkBalance poor_env PLAN_DID AGENT_DID l
     = (Inr False, l @ [GetPlanBalance PLAN_DID, GetAssetDDO AGENT_DID])"
  by (simp add: checkBalance_run poor_env_def sample_env_def sample_ddo_def
        extractRequiredBalance_spec minRequired_spec_def descriptor_field_with to_double_zero)

lemma checkBalance_failing_download:
  "checkBalance (failing_download_env err) PLAN_DID AGENT_DID l
     = (Inr True, l @ [GetPlanBalance PLAN_DID, GetAssetDDO AGENT_DID])"
  by (simp add: checkBalance_run failing_download_env_def sample_env_def sample_ddo_def
        extractRequiredBalance_spec minRequired_spec_def descriptor_field_with to_double_numeral)

text \<open>
  A descriptor answer of \<^verbatim>\<open>null\<close> is a malformed response of the descriptor fetch, yet
  the check does not resolve to false: the requirement defaults to 0 and ten credits
  are enough.
\<close>

theorem checkBalance_malformed_descriptor:
  "getAssetDDO null_descriptor_env AGENT_DID = Inr None
   \<and> fst (checkBalance null_descriptor_env PLAN_DID AGENT_DID []) = Inr True"
  by (simp add: checkBalance_run null_descriptor_env_def sample_env_def
        extractRequiredBalance_spec minRequired_spec_def descriptor_field_def
        to_double_numeral)

text \<open>
  C3, as the code has it: \<open>checkBalance\<close> always resolves and never rejects. It resolves
  to false when the balance fetch or the descriptor fetch throws, or when the balance
  answer is missing. Whenever both fetches return, it resolves to
  \<^verbatim>\<open>Number(balance) >= minRequired\<close>, where \<^verbatim>\<open>minRequired\<close> is the \<^verbatim>\<open>minCreditsRequired\<close>
  field at \<^verbatim>\<open>service[2].attributes.main.nftAttributes\<close> of the descriptor, or 0 when
  that field is absent or falsy: for a BigInt balance \<open>b\<close> below \<open>2 ^ 53\<close> in magnitude
  and a numeric field \<open>k\<close> the answer is \<open>k \<le> b\<close>, and with a descriptor answer that is
  \<^verbatim>\<open>null\<close> or has no service list it is \<open>0 \<le> b\<close>, not false.
\<close>

theorem checkBalance_fail_closed:
  "(\<exists>b. fst (checkBalance e p a l) = Inr b)
   \<and> ((\<exists>err. getPlanBalance e p = Inl err) \<or> (\<exists>err. getAssetDDO e a = Inl err)
        \<or> getPlanBalance e p = Inr None
      \<longrightarrow> fst (checkBalance e p a l) = Inr False)
   \<and> (\<forall>r d. getPlanBalance e p = Inr (Some r) \<and> getAssetDDO e a = Inr d
        \<longrightarrow> fst (checkBalance e p a l)
            = Inr (number_ge_value (Number (balance r)) (minRequired_spec d)))
   \<and> (\<forall>r b d svcs s atr m n k.
         getPlanBalance e p = Inr (Some r) \<and> balance r = JBigInt b \<and> \<bar>b\<bar> < 2 ^ 53
         \<and> getAssetDDO e a = Inr (Some d) \<and> service d = Some svcs \<and> 2 < length svcs
         \<and> svcs ! 2 = Some s \<and> attributes s = Some atr \<and> main atr = Some m
         \<and> nftAttributes m = Some n \<and> minCreditsRequired n = JNumber (Num k)
        \<longrightarrow> fst (checkBalance e p a l) = Inr (k \<le> of_int b))
   \<and> (\<forall>r b. getPlanBalance e p = Inr (Some r) \<and> balance r = JBigInt b \<and> \<bar>b\<bar> < 2 ^ 53
         \<and> (getAssetDDO e a = Inr None
              \<or> (\<exists>d. getAssetDDO e a = Inr (Some d) \<and> service d = None))
        \<longrightarrow> fst (checkBalance e p a l) = Inr (0 \<le> b))"
proof (intro conjI)
  show "\<exists>b. fst (checkBalance e p a l) = Inr b"
    by (rule checkBalance_resolves)
  show "(\<exists>err. getPlanBalance e p = Inl err) \<or> (\<exists>err. getAssetDDO e a = Inl err)
          \<or> getPlanBalance e p = Inr None
        \<longrightarrow> fst (checkBalance e p a l) = Inr False"
    by (auto simp: checkBalance_run split: sum.splits)
  show "\<forall>r d. getPlanBalance e p = Inr (Some r) \<and> getAssetDDO e a = Inr d
        \<longrightarrow> fst (checkBalance e p a l)
            = Inr (number_ge_value (Number (balance r)) (minRequired_spec d))"
    by (simp add: checkBalance_run extractRequiredBalance_spec)
  show "\<forall>r b d svcs s atr m n k.
         getPlanBalance e p = Inr (Some r) \<and> balance r = JBigInt b \<and> \<bar>b\<bar> < 2 ^ 53
         \<and> getAssetDDO e a = Inr (Some d) \<and> service d = Some svcs \<and> 2 < length svcs
         \<and> svcs ! 2 = Some s \<and> attributes s = Some atr \<and> main atr = Some m
         \<and> nftAttributes m = Some n \<and> minCreditsRequired n = JNumber (Num k)
        \<longrightarrow> fst (checkBalance e p a l) = Inr (k \<le> of_int b)"
  proof (intro allI impI, elim conjE)
    fix r b d svcs s atr m n k
    assume r: "getPlanBalance e p = Inr (Some r)" "balance r = JBigInt b" "\<bar>b\<bar> < 2 ^ 53"
      and d: "getAssetDDO e a = Inr (Some d)"
      and path: "service d = Some svcs" "2 < length svcs" "svcs ! 2 = Some s"
        "attributes s = Some atr" "main atr = Some m" "nftAttributes m = Some n"
      and k: "minCreditsRequired n = JNumber (Num k)"
    have f: "descriptor_field (Some d) = JNumber (Num k)"
      using descriptor_field_read [OF path] k by simp
    have "number_ge_value (Num (of_int b)) (minRequired_spec (Some d)) = (k \<le> of_int b)"
      by (cases "k = 0") (simp_all add: minRequired_spec_def f)
    with r d show "fst (checkBalance e p a l) = Inr (k \<le> of_int b)"
      by (simp add: checkBalance_run extractRequiredBalance_spec to_double_of_int)
  qed
  show "\<forall>r b. getPlanBalance e p = Inr (Some r) \<and> balance r = JBigInt b \<and> \<bar>b\<bar> < 2 ^ 53
         \<and> (getAssetDDO e a = Inr None
              \<or> (\<exists>d. getAssetDDO e a = Inr (Some d) \<and> service d = None))
        \<longrightarrow> fst (checkBalance e p a l) = Inr (0 \<le> b)"
    by (auto simp: checkBalance_run extractRequiredBalance_spec minRequired_spec_def
          descriptor_field_def to_double_of_int)
qed

theorem checkBalance_fail_closed_witness:
  "fst (checkBalance sample_env PLAN_DID AGENT_DID []) = Inr True
   \<and> fst (checkBalance poor_env PLAN_DID AGENT_DID []) = Inr False
   \<and> fst (checkBalance (unreachable_payments_env (Error ''ECONNREFUSED'')) PLAN_DID AGENT_DID [])
       = Inr False
   \<and> fst (checkBalance (balance_env (JBigInt 3) (JNumber (Num 5))) PLAN_DID AGENT_DID [])
       = Inr False
   \<and> fst (checkBalance (balance_env (JBigInt 7) (JNumber (Num 5))) PLAN_DID AGENT_DID [])
       = Inr True
   \<and> fst (checkBalance (balance_env (JString ''7'') (JString ''1'')) PLAN_DID AGENT_DID [])
       = Inr True
   \<and> fst (checkBalance (balance_env JNull JUndefined) PLAN_DID AGENT_DID []) = Inr True
   \<and> fst (checkBalance (balance_env JUndefined JUndefined) PLAN_DID AGENT_DID []) = Inr False
   \<and> fst (checkBalance (balance_env (JBigInt 9007199254740993) (JBigInt 9007199254740993))
            PLAN_DID AGENT_DID []) = Inr False
   \<and> fst (checkBalance (balance_env (JBigInt 9007199254740993) (JNumber (Num 9007199254740992)))
            PLAN_DID AGENT_DID []) = Inr True"
proof -
  have env: "\<And>b m. getPlanBalance (balance_env b m) PLAN_DID = Inr (Some \<lparr>balance = b\<rparr>)
                  \<and> getAssetDDO (balance_env b m) AGENT_DID = Inr (Some (descriptor_with m))"
    by (simp add: balance_env_def)
  have run: "\<And>b m. fst (checkBalance (balance_env b m) PLAN_DID AGENT_DID [])
               = Inr (number_ge_value (Number b) (minRequired_spec (Some (descriptor_with m))))"
    using checkBalance_fail_closed [of "balance_env b m" PLAN_DID AGENT_DID "[]" for b m] env
    by simp
  have req: "\<And>m. minRequired_spec (Some (descriptor_with m))
               = (if js_truthy m then m else JNumber (Num 0))"
    by (simp add: minRequired_spec_def descriptor_field_with)
  have 1: "getPlanBalance sample_env PLAN_DID = Inr (Some \<lparr>balance = JBigInt 10\<rparr>)
           \<and> getAssetDDO sample_env AGENT_DID = Inr (Some (descriptor_with (JNumber (Num 1))))"
    by (simp add: sample_env_def sample_ddo_def)
  have 2: "getPlanBalance poor_env PLAN_DID = Inr (Some \<lparr>balance = JBigInt 0\<rparr>)
           \<and> getAssetDDO poor_env AGENT_DID = Inr (Some (descriptor_with (JNumber (Num 1))))"
    by (simp add: poor_env_def sample_env_def sample_ddo_def)
  have 3: "\<exists>err. getPlanBalance (unreachable_payments_env (Error ''ECONNREFUSED'')) PLAN_DID
                   = Inl err"
    by (simp add: unreachable_payments_env_def)
  from checkBalance_fail_closed [of sample_env PLAN_DID AGENT_DID "[]"] 1
  have a: "fst (checkBalance sample_env PLAN_DID AGENT_DID []) = Inr True"
    by (simp add: req to_double_numeral)
  from checkBalance_fail_closed [of poor_env PLAN_DID AGENT_DID "[]"] 2
  have b: "fst (checkBalance poor_env PLAN_DID AGENT_DID []) = Inr False"
    by (simp add: req to_double_zero)
  from checkBalance_fail_closed
         [of "unreachable_payments_env (Error ''ECONNREFUSED'')" PLAN_DID AGENT_DID "[]"] 3
  have c: "fst (checkBalance (unreachable_payments_env (Error ''ECONNREFUSED''))
                  PLAN_DID AGENT_DID []) = Inr False"
    by blast
  have d: "fst (checkBalance (balance_env (JBigInt 3) (JNumber (Num 5))) PLAN_DID AGENT_DID [])
             = Inr False"
    by (simp add: run req to_double_numeral)
  have e: "fst (checkBalance (balance_env (JBigInt 7) (JNumber (Num 5))) PLAN_DID AGENT_DID [])
             = Inr True"
    by (simp add: run req to_double_numeral)
  have f: "fst (checkBalance (balance_env (JString ''7'') (JString ''1'')) PLAN_DID AGENT_DID [])
             = Inr True"
    by (simp add: run req StringToNumber_7 StringToNumber_1)
  have g: "fst (checkBalance (balance_env JNull JUndefined) PLAN_DID AGENT_DID []) = Inr True"
    by (simp add: run req)
  have h: "fst (checkBalance (balance_env JUndefined JUndefined) PLAN_DID AGENT_DID [])
             = Inr False"
    by (simp add: run req)
  have i: "fst (checkBalance (balance_env (JBigInt 9007199254740993) (JBigInt 9007199254740993))
                  PLAN_DID AGENT_DID []) = Inr False"
    by (simp add: run req to_double_2p53p1)
  have j: "fst (checkBalance (balance_env (JBigInt 9007199254740993)
                  (JNumber (Num 9007199254740992))) PLAN_DID AGENT_DID []) = Inr True"
    by (simp add: run req to_double_2p53p1)
  from a b c d e f g h i j show ?thesis by simp
qed

text \<open>
  C7: \<open>orderPlan\<close> always resolves and never rejects. A purchase call that throws an
  \<^verbatim>\<open>Error\<close> with message \<open>m\<close> gives \<^verbatim>\<open>{success: false, message: m}\<close> (any other thrown
  value gives its string rendering as the message); a missing or unsuccessful purchase
  result gives \<^verbatim>\<open>{success: false}\<close> with "Failed to create order"; a successful one gives
  \<^verbatim>\<open>{success: true}\<close> with the confirmation that carries the agreement id.
\<close>

theorem orderPlan_never_throws:
  "(\<exists>r. fst (orderPlan e p l) = Inr r)
   \<and> (sdk_orderPlan e p = Inl (Error m)
        \<longrightarrow> fst (orderPlan e p l) = Inr \<lparr>success = False, message = Some m\<rparr>)
   \<and> (sdk_orderPlan e p = Inl (Thrown s)
        \<longrightarrow> fst (orderPlan e p l) = Inr \<lparr>success = False, message = Some s\<rparr>)
   \<and> (sdk_orderPlan e p = Inr None \<or> (sdk_orderPlan e p = Inr (Some r) \<and> \<not> success r)
        \<longrightarrow> fst (orderPlan e p l)
            = Inr \<lparr>success = False, message = Some ''Failed to create order''\<rparr>)
   \<and> (sdk_orderPlan e p = Inr (Some r) \<and> success r
        \<longrightarrow> fst (orderPlan e p l)
            = Inr \<lparr>success = True,
                   message = Some (''Plan ordered successfully. Agreement ID: ''
                                   @ (case agreementId r of None \<Rightarrow> ''undefined''
                                      | Some i \<Rightarrow> i))\<rparr>)"
  by (auto simp: orderPlan_run split: option.splits)

theorem orderPlan_never_throws_witness:
  "fst (orderPlan sample_env PLAN_DID [])
     = Inr \<lparr>success = True, message = Some ''Plan ordered successfully. Agreement ID: 0xabc''\<rparr>
   \<and> fst (orderPlan rejected_order_env PLAN_DID [])
     = Inr \<lparr>success = False, message = Some ''Failed to create order''\<rparr>
   \<and> fst (orderPlan (unreachable_payments_env (Error ''ECONNREFUSED'')) PLAN_DID [])
     = Inr \<lparr>success = False, message = Some ''ECONNREFUSED''\<rparr>
   \<and> fst (orderPlan (unreachable_payments_env (Thrown ''timeout'')) PLAN_DID [])
     = Inr \<lparr>success = False, message = Some ''timeout''\<rparr>"
proof -
  have 1: "sdk_orderPlan sample_env PLAN_DID
             = Inr (Some \<lparr>success = True, agreementId = Some ''0xabc''\<rparr>)"
    by (simp add: sample_env_def)
  have 2: "sdk_orderPlan rejected_order_env PLAN_DID = Inr None"
    by (simp add: rejected_order_env_def)
  have 3: "sdk_orderPlan (unreachable_payments_env (Error ''ECONNREFUSED'')) PLAN_DID
             = Inl (Error ''ECONNREFUSED'')"
    by (simp add: unreachable_payments_env_def)
  have 4: "sdk_orderPlan (unreachable_payments_env (Thrown ''timeout'')) PLAN_DID
             = Inl (Thrown ''timeout'')"
    by (simp add: unreachable_payments_env_def)
  from orderPlan_never_throws
        [where e = sample_env and p = PLAN_DID and l = "[]"
           and r = "\<lparr>success = True, agreementId = Some ''0xabc''\<rparr>"] 1
  have a: "fst (orderPlan sample_env PLAN_DID [])
     = Inr \<lparr>success = True, message = Some ''Plan ordered successfully. Agreement ID: 0xabc''\<rparr>"
    by simp
  from orderPlan_never_throws [where e = rejected_order_env and p = PLAN_DID and l = "[]"] 2
  have b: "fst (orderPlan rejected_order_env PLAN_DID [])
     = Inr \<lparr>success = False, message = Some ''Failed to create order''\<rparr>"
    by simp
  from orderPlan_never_throws
        [where e = "unreachable_payments_env (Error ''ECONNREFUSED'')" and p = PLAN_DID
           and l = "[]" and m = "''ECONNREFUSED''"] 3
  have c: "fst (orderPlan (unreachable_payments_env (Error ''ECONNREFUSED'')) PLAN_DID [])
     = Inr \<lparr>success = False, message = Some ''ECONNREFUSED''\<rparr>"
    by simp
  from orderPlan_never_throws
        [where e = "unreachable_payments_env (Thrown ''timeout'')" and p = PLAN_DID
           and l = "[]" and s = "''timeout''"] 4
  have d: "fst (orderPlan (unreachable_payments_env (Thrown ''timeout'')) PLAN_DID [])
     = Inr \<lparr>success = False, message = Some ''timeout''\<rparr>"
    by simp
  from a b c d show ?thesis by simp
qed

text \<open>
  \<open>getVideoService\<close> is a broker operation too, and it has no handler of its own: when
  the access configuration has no token it rejects, as \<open>getServiceAccess\<close> does.
\<close>

theorem getVideoService_propagates:
  "fst (getVideoService no_token_env AGENT_DID [])
     = Inl (Error ''Failed to get service access configuration'')"
  by (simp add: getVideoService_run getServiceAccess_run no_token_env_def)

text \<open>
  C4, as the code has it: \<open>getServiceAccess\<close> rejects whenever the access configuration
  is missing or has no (or an empty) access token, and a grant it returns always has a
  non-empty token. Of the broker's operations, \<open>checkBalance\<close> and \<open>orderPlan\<close> never
  reject, while \<open>getVideoService\<close>, which calls \<open>getServiceAccess\<close>, rejects with the same
  error whenever \<open>getServiceAccess\<close> does.
\<close>

theorem getServiceAccess_requires_token:
  "(getServiceAccessConfig e a = Inr None
      \<or> (\<exists>c. getServiceAccessConfig e a = Inr (Some c) \<and> \<not> truthy (token c))
     \<longrightarrow> fst (getServiceAccess e a l) = Inl (Error ''Failed to get service access configuration''))
   \<and> (\<forall>g. fst (getServiceAccess e a l) = Inr g \<longrightarrow> accessToken g \<noteq> [])
   \<and> (\<forall>err. fst (getServiceAccess e a l) = Inl err \<longrightarrow> fst (getVideoService e a l) = Inl err)
   \<and> (\<exists>b. fst (checkBalance e p a l) = Inr b)
   \<and> (\<exists>r. fst (orderPlan e p l) = Inr r)"
proof (intro conjI)
  show "getServiceAccessConfig e a = Inr None
      \<or> (\<exists>c. getServiceAccessConfig e a = Inr (Some c) \<and> \<not> truthy (token c))
     \<longrightarrow> fst (getServiceAccess e a l) = Inl (Error ''Failed to get service access configuration'')"
    by (auto simp: getServiceAccess_run)
  show "\<forall>g. fst (getServiceAccess e a l) = Inr g \<longrightarrow> accessToken g \<noteq> []"
    by (auto simp: getServiceAccess_run truthy_template split: sum.splits option.splits if_splits)
  show "\<forall>err. fst (getServiceAccess e a l) = Inl err \<longrightarrow> fst (getVideoService e a l) = Inl err"
    by (auto simp: getVideoService_run split: prod.splits sum.splits)
  show "\<exists>b. fst (checkBalance e p a l) = Inr b"
    by (rule checkBalance_resolves)
  show "\<exists>r. fst (orderPlan e p l) = Inr r"
    by (simp add: orderPlan_run)
qed

theorem getServiceAccess_requires_token_witness:
  "fst (getServiceAccess no_token_env AGENT_DID [])
     = Inl (Error ''Failed to get service access configuration'')
   \<and> fst (getVideoService no_token_env AGENT_DID [])
     = Inl (Error ''Failed to get service access configuration'')
   \<and> fst (getServiceAccess sample_env AGENT_DID [])
     = Inr \<lparr>neverminedProxyUri = ''http://proxy.example'', accessToken = ''tok''\<rparr>
   \<and> accessToken \<lparr>neverminedProxyUri = ''http://proxy.example'', accessToken = ''tok''\<rparr> \<noteq> []"
proof -
  have 1: "getServiceAccessConfig no_token_env AGENT_DID
             = Inr (Some \<lparr>proxyUri = Some ''https://proxy.example'', token = None\<rparr>)"
    by (simp add: no_token_env_def)
  have 2: "fst (getServiceAccess sample_env AGENT_DID [])
             = Inr \<lparr>neverminedProxyUri = ''http://proxy.example'', accessToken = ''tok''\<rparr>"
    by (simp add: getServiceAccess_run sample_env_def)
  from getServiceAccess_requires_token [of no_token_env AGENT_DID "[]" PLAN_DID] 1
  have a: "fst (getServiceAccess no_token_env AGENT_DID [])
             = Inl (Error ''Failed to get service access configuration'')"
    by simp
  from getServiceAccess_requires_token [of no_token_env AGENT_DID "[]" PLAN_DID] a
  have b: "fst (getVideoService no_token_env AGENT_DID [])
             = Inl (Error ''Failed to get service access configuration'')"
    by blast
  from getServiceAccess_requires_token [of sample_env AGENT_DID "[]" PLAN_DID] 2
  have c: "accessToken \<lparr>neverminedProxyUri = ''http://proxy.example'', accessToken = ''tok''\<rparr> \<noteq> []"
    by blast
  from a b c 2 show ?thesis by simp
qed

section \<open>The generation client\<close>

lemma generateText2Image_run:
  "generateText2Image e vs p l =
     (Inr (case backend_reply e vs ''/api/generate/text2image'' (Text2ImageBody p) of
             Inl err \<Rightarrow> failure err
           | Inr resp \<Rightarrow>
               if \<not> ok resp
               then failure (Error (''HTTP error! status: '' @ show_nat (status resp)))
               else (case json resp of
                       Inl err \<Rightarrow> failure err
                     | Inr None \<Rightarrow> failure (type_error ''null'' ''imageUrl'')
                     | Inr (Some b) \<Rightarrow>
                         \<lparr>success = True, message = None,
                          imageUrl = body_imageUrl b, url = None\<rparr>)),
      l @ [Fetch (baseUrl vs @ ''/api/generate/text2image'')
                 (''Bearer '' @ service_accessToken vs) (Text2ImageBody p)])"
  by (simp add: generateText2Image_def post_def promise_defs split: sum.splits option.splits)

lemma generateImage2Image_run:
  "generateImage2Image e vs i p l =
     (Inr (case backend_reply e vs ''/api/generate/image2image'' (Image2ImageBody i p) of
             Inl err \<Rightarrow> failure err
           | Inr resp \<Rightarrow>
               if \<not> ok resp
               then failure (Error (''HTTP error! status: '' @ show_nat (status resp)))
               else (case json resp of
                       Inl err \<Rightarrow> failure err
                     | Inr None \<Rightarrow> failure (type_error ''null'' ''imageUrl'')
                     | Inr (Some b) \<Rightarrow>
                         \<lparr>success = True, message = None,
                          imageUrl = body_imageUrl b, url = None\<rparr>)),
      l @ [Fetch (baseUrl vs @ ''/api/generate/image2image'')
                 (''Bearer '' @ service_accessToken vs) (Image2ImageBody i p)])"
  by (simp add: generateImage2Image_def post_def promise_defs split: sum.splits option.splits)

lemma generateText2Video_run:
  "generateText2Video e vs p us d l =
     (Inr (case backend_reply e vs ''/api/generate/text2video'' (Text2VideoBody p us d) of
             Inl err \<Rightarrow> failure err
           | Inr resp \<Rightarrow>
               if \<not> ok resp
               then failure (Error (''HTTP error! status: '' @ show_nat (status resp)))
               else (case json resp of
                       Inl err \<Rightarrow> failure err
                     | Inr None \<Rightarrow> failure (type_error ''null'' ''url'')
                     | Inr (Some b) \<Rightarrow>
                         \<lparr>success = True, message = None,
                          imageUrl = None, url = body_url b\<rparr>)),
      l @ [Fetch (baseUrl vs @ ''/api/generate/text2video'')
                 (''Bearer '' @ service_accessToken vs) (Text2VideoBody p us d)])"
  by (simp add: generateText2Video_def post_def promise_defs split: sum.splits option.splits)

lemma show_nat_500: "show_nat 500 = ''500''"
  by (simp add: show_nat.simps) code_simp

text \<open>
  A backend that answers 200 with a JSON object without \<^verbatim>\<open>imageUrl\<close> makes
  \<open>generateText2Image\<close> return \<^verbatim>\<open>success: true\<close> with no \<^verbatim>\<open>imageUrl\<close>.
\<close>

theorem generation_success_without_uri:
  "fst (generateText2Image empty_body_env sample_service ''a cat'' [])
     = Inr \<lparr>success = True, message = None, imageUrl = None, url = None\<rparr>"
  by (simp add: generateText2Image_run backend_reply_def empty_body_env_def ok_def)

text \<open>
  C6, as the code has it: each of the three generation operations always resolves; a
  response with \<^verbatim>\<open>success = false\<close> carries a message; a response with
  \<^verbatim>\<open>success = true\<close> comes from a 2xx answer whose body parsed to a JSON value, and its
  primary URI field (\<^verbatim>\<open>imageUrl\<close> for the two image operations, \<^verbatim>\<open>url\<close> for video) is
  that value's field of the same name, present only if the backend supplied it.
\<close>

theorem generation_response_shape:
  "(\<exists>r. fst (generateText2Image e vs p l) = Inr r
        \<and> (\<not> success r \<longrightarrow> message r \<noteq> None)
        \<and> (success r \<longrightarrow>
             (\<exists>resp b. backend_reply e vs ''/api/generate/text2image'' (Text2ImageBody p) = Inr resp
                       \<and> ok resp \<and> json resp = Inr (Some b) \<and> imageUrl r = body_imageUrl b)))
   \<and> (\<exists>r. fst (generateImage2Image e vs i p l) = Inr r
        \<and> (\<not> success r \<longrightarrow> message r \<noteq> None)
        \<and> (success r \<longrightarrow>
             (\<exists>resp b. backend_reply e vs ''/api/generate/image2image'' (Image2ImageBody i p) = Inr resp
                       \<and> ok resp \<and> json resp = Inr (Some b) \<and> imageUrl r = body_imageUrl b)))
   \<and> (\<exists>r. fst (generateText2Video e vs p us d l) = Inr r
        \<and> (\<not> success r \<longrightarrow> message r \<noteq> None)
        \<and> (success r \<longrightarrow>
             (\<exists>resp b. backend_reply e vs ''/api/generate/text2video'' (Text2VideoBody p us d) = Inr resp
                       \<and> ok resp \<and> json resp = Inr (Some b) \<and> url r = body_url b)))"
proof (intro conjI)
  show "\<exists>r. fst (generateText2Image e vs p l) = Inr r
        \<and> (\<not> success r \<longrightarrow> message r \<noteq> None)
        \<and> (success r \<longrightarrow>
             (\<exists>resp b. backend_reply e vs ''/api/generate/text2image'' (Text2ImageBody p) = Inr resp
                       \<and> ok resp \<and> json resp = Inr (Some b) \<and> imageUrl r = body_imageUrl b))"
    by (auto simp: generateText2Image_run failure_def split: sum.splits option.splits)
  show "\<exists>r. fst (generateImage2Image e vs i p l) = Inr r
        \<and> (\<not> success r \<longrightarrow> message r \<noteq> None)
        \<and> (success r \<longrightarrow>
             (\<exists>resp b. backend_reply e vs ''/api/generate/image2image'' (Image2ImageBody i p) = Inr resp
                       \<and> ok resp \<and> json resp = Inr (Some b) \<and> imageUrl r = body_imageUrl b))"
    by (auto simp: generateImage2Image_run failure_def split: sum.splits option.splits)
  show "\<exists>r. fst (generateText2Video e vs p us d l) = Inr r
        \<and> (\<not> success r \<longrightarrow> message r \<noteq> None)
        \<and> (success r \<longrightarrow>
             (\<exists>resp b. backend_reply e vs ''/api/generate/text2video'' (Text2VideoBody p us d) = Inr resp
                       \<and> ok resp \<and> json resp = Inr (Some b) \<and> url r = body_url b))"
    by (auto simp: generateText2Video_run failure_def split: sum.splits option.splits)
qed

theorem generation_response_shape_witness:
  "(\<exists>r. fst (generateText2Image sample_env sample_service ''a cat'' []) = Inr r
        \<and> success r \<and> imageUrl r = Some ''http://cdn.example/a.jpg'')
   \<and> (\<exists>r. fst (generateText2Video failing_backend_env sample_service ''a cat'' None None [])
             = Inr r
        \<and> \<not> success r \<and> message r \<noteq> None)"
proof -
  let ?ok = "\<lparr>success = True, message = None,
              imageUrl = Some ''http://cdn.example/a.jpg'', url = None\<rparr>"
  let ?ko = "failure (Error ''HTTP error! status: 500'')"
  have a: "fst (generateText2Image sample_env sample_service ''a cat'' []) = Inr ?ok"
    by (simp add: generateText2Image_run backend_reply_def sample_env_def ok_def)
  have b: "fst (generateText2Video failing_backend_env sample_service ''a cat'' None None [])
             = Inr ?ko"
    by (simp add: generateText2Video_run backend_reply_def failing_backend_env_def ok_def
          show_nat_500)
  have c: "\<not> success ?ko" by (simp add: failure_def)
  from generation_response_shape
         [of failing_backend_env sample_service "''a cat''" "[]" "[]" None None] b c
  have "message ?ko \<noteq> None" by auto
  with a b c show ?thesis by simp
qed

section \<open>The tool handlers\<close>

text \<open>
  C2: when the balance check resolves false, each of \<open>text2image\<close>, \<open>image2image\<close> and
  \<open>text2video\<close>, in both servers, resolves to the purchase prompt, whose metadata has
  \<^verbatim>\<open>needsPurchase = true\<close> and the configured plan identifier, and adds no call to the
  generation backend.
\<close>

theorem insufficient_credits_short_circuit:
  "(fst (checkBalance e PLAN_DID AGENT_DID l) = Inr False \<longrightarrow>
      fst (text2image e p l) = Inr (insufficient_credits PLAN_DID)
      \<and> backend_calls (snd (text2image e p l)) = backend_calls l
      \<and> fst (image2image e i p l) = Inr (insufficient_credits PLAN_DID)
      \<and> backend_calls (snd (image2image e i p l)) = backend_calls l
      \<and> fst (text2video e p us d l) = Inr (insufficient_credits PLAN_DID)
      \<and> backend_calls (snd (text2video e p us d l)) = backend_calls l)
   \<and> (lib_checkBalance e PLAN_DID AGENT_DID = Inr False \<longrightarrow>
      fst (text2image_v1 e p l) = Inr (insufficient_credits PLAN_DID)
      \<and> backend_calls (snd (text2image_v1 e p l)) = backend_calls l
      \<and> fst (image2image_v1 e i p l) = Inr (insufficient_credits PLAN_DID)
      \<and> backend_calls (snd (image2image_v1 e i p l)) = backend_calls l
      \<and> fst (text2video_v1 e p us d l) = Inr (insufficient_credits PLAN_DID)
      \<and> backend_calls (snd (text2video_v1 e p us d l)) = backend_calls l)
   \<and> metadata (insufficient_credits PLAN_DID)
       = Some \<lparr>needsPurchase = True, planDid = PLAN_DID\<rparr>"
proof (intro conjI impI)
  assume f: "fst (checkBalance e PLAN_DID AGENT_DID l) = Inr False"
  obtain l' where c: "checkBalance e PLAN_DID AGENT_DID l = (Inr False, l')"
    using f by (cases "checkBalance e PLAN_DID AGENT_DID l") simp
  have l': "backend_calls l' = backend_calls l"
    using checkBalance_log [of e PLAN_DID AGENT_DID l] c by simp
  show "fst (text2image e p l) = Inr (insufficient_credits PLAN_DID)"
    by (simp add: text2image_def await_def resolve_def c)
  show "backend_calls (snd (text2image e p l)) = backend_calls l"
    by (simp add: text2image_def await_def resolve_def c l')
  show "fst (image2image e i p l) = Inr (insufficient_credits PLAN_DID)"
    by (simp add: image2image_def await_def try_catch_def resolve_def c)
  show "backend_calls (snd (image2image e i p l)) = backend_calls l"
    by (simp add: image2image_def await_def try_catch_def resolve_def c l')
  show "fst (text2video e p us d l) = Inr (insufficient_credits PLAN_DID)"
    by (simp add: text2video_def await_def resolve_def c)
  show "backend_calls (snd (text2video e p us d l)) = backend_calls l"
    by (simp add: text2video_def await_def resolve_def c l')
next
  assume f: "lib_checkBalance e PLAN_DID AGENT_DID = Inr False"
  show "fst (text2image_v1 e p l) = Inr (insufficient_credits PLAN_DID)"
    by (simp add: text2image_v1_def await_def resolve_def external_def f)
  show "backend_calls (snd (text2image_v1 e p l)) = backend_calls l"
    by (simp add: text2image_v1_def await_def resolve_def external_def f backend_calls_def)
  show "fst (image2image_v1 e i p l) = Inr (insufficient_credits PLAN_DID)"
    by (simp add: image2image_v1_def await_def try_catch_def resolve_def external_def f)
  show "backend_calls (snd (image2image_v1 e i p l)) = backend_calls l"
    by (simp add: image2image_v1_def await_def try_catch_def resolve_def external_def f
          backend_calls_def)
  show "fst (text2video_v1 e p us d l) = Inr (insufficient_credits PLAN_DID)"
    by (simp add: text2video_v1_def await_def resolve_def external_def f)
  show "backend_calls (snd (text2video_v1 e p us d l)) = backend_calls l"
    by (simp add: text2video_v1_def await_def resolve_def external_def f backend_calls_def)
next
  show "metadata (insufficient_credits PLAN_DID)
       = Some \<lparr>needsPurchase = True, planDid = PLAN_DID\<rparr>"
    by (simp add: insufficient_credits_def)
qed


theorem insufficient_credits_short_circuit_witness:
  "fst (checkBalance poor_env PLAN_DID AGENT_DID []) = Inr False
   \<and> lib_checkBalance poor_env PLAN_DID AGENT_DID = Inr False
   \<and> fst (text2image poor_env ''a cat'' []) = Inr (insufficient_credits PLAN_DID)
   \<and> backend_calls (snd (text2image poor_env ''a cat'' [])) = []
   \<and> fst (text2video_v1 poor_env ''a cat'' None None []) = Inr (insufficient_credits PLAN_DID)
   \<and> backend_calls (snd (text2video_v1 poor_env ''a cat'' None None [])) = []"
proof -
  have a: "fst (checkBalance poor_env PLAN_DID AGENT_DID []) = Inr False"
    by (simp add: checkBalance_poor)
  have b: "lib_checkBalance poor_env PLAN_DID AGENT_DID = Inr False"
    by (simp add: poor_env_def)
  have c: "backend_calls [] = []"
    by (simp add: backend_calls_def)
  from insufficient_credits_short_circuit
         [of poor_env "[]" "''a cat''" "[]" None None] a b c
  show ?thesis by simp
qed

lemma downloadAsBase64_rethrows:
  "axios_get e u = Inl err \<Longrightarrow> fst (downloadAsBase64 e u l) = Inl err"
  by (simp add: downloadAsBase64_run)

lemma downloadAsBase64_v1_swallows:
  "axios_get e u = Inl err \<Longrightarrow> fst (downloadAsBase64_v1 e u l) = Inr None"
  by (simp add: downloadAsBase64_v1_run)

text \<open>
  C5: a download that fails must reach the tool caller as a failure. With the artifact
  host refusing the connection, the helper of the payments-library server returns null
  and its \<open>text2image\<close> answers with the reference-only resource, as for a large
  artifact and without any error; on the same input the helper of the PaymentsManager
  server rejects with the download's error, and so do its \<open>text2image\<close> and
  \<open>text2video\<close>.
\<close>

theorem download_failure_swallowed:
  "fst (downloadAsBase64_v1 (failing_download_env (Error ''socket hang up''))
          ''http://cdn.example/a.jpg'' []) = Inr None
   \<and> fst (text2image_v1 (failing_download_env (Error ''socket hang up'')) ''a cat'' [])
     = Inr (content_response (ResourceContent
              \<lparr>uri = ''http://cdn.example/a.jpg'', blob = None,
               resource_text = Some ''Generated image'', mimeType = ''image/png''\<rparr>))
   \<and> fst (downloadAsBase64 (failing_download_env (Error ''socket hang up''))
          ''http://cdn.example/a.jpg'' []) = Inl (Error ''socket hang up'')
   \<and> fst (text2image (failing_download_env (Error ''socket hang up'')) ''a cat'' [])
     = Inl (Error ''socket hang up'')
   \<and> fst (text2video (failing_download_env (Error ''socket hang up'')) ''a cat'' None None [])
     = Inl (Error ''socket hang up'')"
proof -
  let ?e = "failing_download_env (Error ''socket hang up'')"
  have a: "fst (downloadAsBase64_v1 ?e ''http://cdn.example/a.jpg'' []) = Inr None"
    by (simp add: downloadAsBase64_v1_run failing_download_env_def)
  have b: "fst (text2image_v1 ?e ''a cat'' [])
     = Inr (content_response (ResourceContent
              \<lparr>uri = ''http://cdn.example/a.jpg'', blob = None,
               resource_text = Some ''Generated image'', mimeType = ''image/png''\<rparr>))"
    by (simp add: text2image_v1_def videoService_v1_def await_def resolve_def external_def
          generateText2Image_run downloadAsBase64_v1_run backend_reply_def ok_def
          image_result_def failing_download_env_def sample_env_def)
  have c: "fst (downloadAsBase64 ?e ''http://cdn.example/a.jpg'' [])
             = Inl (Error ''socket hang up'')"
    by (simp add: downloadAsBase64_run failing_download_env_def)
  have d: "fst (text2image ?e ''a cat'' []) = Inl (Error ''socket hang up'')"
    by (simp add: text2image_def await_def resolve_def checkBalance_failing_download)
       (simp add: await_def resolve_def getVideoService_run getServiceAccess_run generateText2Image_run
          downloadAsBase64_run backend_reply_def ok_def failing_download_env_def
          sample_env_def del: replace_first.simps)
  have e: "fst (text2video ?e ''a cat'' None None []) = Inl (Error ''socket hang up'')"
    by (simp add: text2video_def await_def resolve_def checkBalance_failing_download)
       (simp add: await_def resolve_def getVideoService_run getServiceAccess_run generateText2Video_run
          downloadAsBase64_run backend_reply_def ok_def failing_download_env_def
          sample_env_def del: replace_first.simps)
  from a b c d e show ?thesis by simp
qed

theorem download_failure_swallowed_witness:
  "map_sum id isError
     (fst (text2image_v1 (failing_download_env (Error ''socket hang up'')) ''a cat'' []))
     = Inr False"
  using download_failure_swallowed by (simp add: content_response_def)

text \<open>
  C8: the claim asks for \<^verbatim>\<open>image/jpeg\<close> on both image tools. The PaymentsManager server
  attaches \<^verbatim>\<open>image/jpeg\<close>; the payments-library server attaches \<^verbatim>\<open>image/png\<close> to the
  same artifact.
\<close>

theorem text2image_v1_labels_png:
  "fst (text2image_v1 sample_env ''a cat'' [])
     = Inr (content_response (ImageContent ''TWFu'' ''image/png''))
   \<and> fst (text2image sample_env ''a cat'' [])
     = Inr (content_response (ResourceContent
              \<lparr>uri = ''http://cdn.example/a.jpg'', blob = Some ''TWFu'',
               resource_text = None, mimeType = ''image/jpeg''\<rparr>))"
proof -
  have v1: "fst (text2image_v1 sample_env ''a cat'' [])
     = Inr (content_response (ImageContent ''TWFu'' ''image/png''))"
    by (simp add: text2image_v1_def videoService_v1_def await_def resolve_def external_def
          generateText2Image_run downloadAsBase64_v1_run backend_reply_def ok_def
          image_result_def parseInt_zero base64_Man sample_env_def
          del: base64_encode.simps)
  have v2: "fst (text2image sample_env ''a cat'' [])
     = Inr (content_response (ResourceContent
              \<lparr>uri = ''http://cdn.example/a.jpg'', blob = Some ''TWFu'',
               resource_text = None, mimeType = ''image/jpeg''\<rparr>))"
    by (simp add: text2image_def await_def resolve_def checkBalance_sample)
       (simp add: await_def resolve_def getVideoService_run getServiceAccess_run generateText2Image_run
          downloadAsBase64_run backend_reply_def ok_def resource_result_def base64_Man
          sample_env_def del: base64_encode.simps replace_first.simps)
  from v1 v2 show ?thesis by simp
qed

theorem text2image_v1_labels_png_witness:
  "map_sum id (map content_mimeType \<circ> content) (fst (text2image_v1 sample_env ''a cat'' []))
     = Inr [Some ''image/png'']"
  using text2image_v1_labels_png by (simp add: content_response_def)

end
